theory Spec2Isabelle
  imports Complex_Main "HOL-Library.Sublist" "HOL-Library.Char_ord" "HOL-Library.List_Lexorder"
    "HOL-Library.Code_Target_Nat"
begin

section \<open>Strings of the source\<close>

text \<open>
  A string of the source is modelled as a \<^typ>\<open>string\<close>, a list of 8-bit characters. The
  model covers ASCII text: one character of the model is one UTF-16 code unit of the
  source, case folding folds \<open>A-Z\<close> only, and the whitespace class \<open>\s\<close> (which
  \<open>trim\<close> strips as well) is tab, line feed, vertical tab, form feed, carriage return and
  space. The two non-ASCII literals of the source (an ellipsis and a pair of typographic
  quotes) are written as their UTF-8 bytes; none of them is whitespace or a letter.
\<close>

definition isSpace :: "char \<Rightarrow> bool" where
  "isSpace c = (c = CHR '' '' \<or> c = CHR 0x09 \<or> c = CHR 0x0A \<or> c = CHR 0x0B
     \<or> c = CHR 0x0C \<or> c = CHR 0x0D)"

definition isLineBreak :: "char \<Rightarrow> bool" where
  "isLineBreak c = (c = CHR 0x0A \<or> c = CHR 0x0D)"

definition lowerChar :: "char \<Rightarrow> char" where
  "lowerChar c = (let n = (of_char c :: nat) in if 65 \<le> n \<and> n \<le> 90 then char_of (n + 32) else c)"

definition isWordChar :: "char \<Rightarrow> bool" where
  "isWordChar c = (let n = (of_char c :: nat) in
     (48 \<le> n \<and> n \<le> 57) \<or> (65 \<le> n \<and> n \<le> 90) \<or> (97 \<le> n \<and> n \<le> 122) \<or> n = 95)"

text \<open>The same two classes read off the bits of a character, for evaluation.\<close>

lemma lowerChar_code [code]:
  "lowerChar (Char b0 b1 b2 b3 b4 b5 b6 b7) =
     (if \<not> b7 \<and> b6 \<and> \<not> b5 \<and> (b0 \<or> b1 \<or> b2 \<or> b3 \<or> b4) \<and> \<not> (b4 \<and> b3 \<and> (b2 \<or> (b1 \<and> b0)))
      then Char b0 b1 b2 b3 b4 True b6 b7 else Char b0 b1 b2 b3 b4 b5 b6 b7)"
  unfolding lowerChar_def
  by (cases b0; cases b1; cases b2; cases b3; cases b4; cases b5; cases b6; cases b7)
     (simp_all add: char_of_def bit_0)

lemma isWordChar_code [code]:
  "isWordChar (Char b0 b1 b2 b3 b4 b5 b6 b7) =
     (\<not> b7 \<and> ((\<not> b6 \<and> b5 \<and> b4 \<and> (\<not> b3 \<or> (\<not> b2 \<and> \<not> b1)))
        \<or> (b6 \<and> (b0 \<or> b1 \<or> b2 \<or> b3 \<or> b4) \<and> \<not> (b4 \<and> b3 \<and> (b2 \<or> (b1 \<and> b0))))
        \<or> (b6 \<and> \<not> b5 \<and> b4 \<and> b3 \<and> b2 \<and> b1 \<and> b0)))"
  unfolding isWordChar_def
  by (cases b0; cases b1; cases b2; cases b3; cases b4; cases b5; cases b6; cases b7) simp_all

definition toLowerCase :: "string \<Rightarrow> string" where
  "toLowerCase s = map lowerChar s"

definition trim :: "string \<Rightarrow> string" where
  "trim s = rev (dropWhile isSpace (rev (dropWhile isSpace s)))"

text \<open>\<open>s.replace(/[...]+/g, ' ')\<close>: every maximal run of characters of the class becomes
  one space.\<close>

function replaceRuns :: "(char \<Rightarrow> bool) \<Rightarrow> string \<Rightarrow> string" where
  "replaceRuns p [] = []"
| "replaceRuns p (c # cs) =
     (if p c then CHR '' '' # replaceRuns p (dropWhile p cs) else c # replaceRuns p cs)"
  by pat_completeness auto
termination
  by (relation "measure (\<lambda>(p, s). length s)") (auto simp: length_dropWhile_le less_Suc_eq_le)

text \<open>\<open>utils.ts\<close>: \<open>normalizeForMatch\<close>, \<open>safeOneLine\<close>, \<open>clamp\<close>, \<open>chunkTextAround\<close>.\<close>

definition normalizeForMatch :: "string \<Rightarrow> string" where
  "normalizeForMatch s = trim (replaceRuns isSpace (toLowerCase s))"

definition safeOneLine :: "string \<Rightarrow> string" where
  "safeOneLine s = trim (replaceRuns isLineBreak s)"

definition clamp :: "int \<Rightarrow> int \<Rightarrow> int \<Rightarrow> int" where
  "clamp n lo hi = max lo (min hi n)"

text \<open>\<open>text.slice(start, end)\<close> for indices within \<open>0 .. length\<close>, the only way the source
  calls it; an end before the start gives the empty string.\<close>

definition slice :: "string \<Rightarrow> nat \<Rightarrow> nat \<Rightarrow> string" where
  "slice s start finish = take (finish - start) (drop start s)"

definition chunkTextAround :: "string \<Rightarrow> int \<Rightarrow> int \<Rightarrow> string" where
  "chunkTextAround text index radius =
     (let start = clamp (index - radius) 0 (int (length text));
          finish = clamp (index + radius) 0 (int (length text))
      in trim (slice text (nat start) (nat finish)))"

text \<open>\<open>h.includes(n)\<close> and \<open>h.indexOf(n)\<close> (\<open>-1\<close> when there is no occurrence).\<close>

fun includesStr :: "string \<Rightarrow> string \<Rightarrow> bool" where
  "includesStr [] n = (n = [])"
| "includesStr (c # cs) n = (prefix n (c # cs) \<or> includesStr cs n)"

fun indexOf :: "string \<Rightarrow> string \<Rightarrow> int" where
  "indexOf [] n = (if n = [] then 0 else - 1)"
| "indexOf (c # cs) n =
     (if prefix n (c # cs) then 0
      else (let i = indexOf cs n in if i < 0 then - 1 else i + 1))"

text \<open>\<open>xs.join(sep)\<close>.\<close>

fun join :: "string \<Rightarrow> string list \<Rightarrow> string" where
  "join sep [] = []"
| "join sep [x] = x"
| "join sep (x # y # ys) = x @ sep @ join sep (y # ys)"

section \<open>Risk labels and decisions (\<open>types.ts\<close>)\<close>

datatype RiskLabel = HIGH | MODERATE | LOW | UNKNOWN

datatype Decision = BLOCK | CAUTION | CLARIFY | INFO

text \<open>The table \<open>order\<close> inside \<open>bumpRisk\<close> (\<open>policy.ts\<close>).\<close>

fun order :: "RiskLabel \<Rightarrow> nat" where
  "order UNKNOWN = 0"
| "order LOW = 1"
| "order MODERATE = 2"
| "order HIGH = 3"

definition bumpRisk :: "RiskLabel \<Rightarrow> RiskLabel \<Rightarrow> RiskLabel" where
  "bumpRisk current next = (if order next > order current then next else current)"

section \<open>The host's builtins\<close>

text \<open>
  Three library functions the source calls are not code of the repository: Node's
  \<open>crypto.createHash('sha256')...digest('hex')\<close>, \<open>Number(s)\<close> and
  \<open>String.prototype.localeCompare\<close>. They are parameters of the model. \<open>js_Number\<close>
  gives \<open>None\<close> where \<open>Number(s)\<close> is not finite (\<open>NaN\<close>, \<open>Infinity\<close>), and the value
  of the double otherwise (every finite double is a rational).
\<close>

record Host =
  crypto_sha256_hex :: "string \<Rightarrow> string"
  js_Number :: "string \<Rightarrow> rat option"
  js_localeCompare :: "string \<Rightarrow> string \<Rightarrow> int"

definition sha256Hex :: "Host \<Rightarrow> string \<Rightarrow> string" where
  "sha256Hex host text = crypto_sha256_hex host text"

section \<open>Label records and snapshots (\<open>types.ts\<close>)\<close>

text \<open>
  Field names are the source's. Where two interfaces of the source share a field name,
  the later record here carries a suffix (\<open>_field\<close> in the openFDA record, \<open>_card\<close> in the
  proof card), as record fields are global names. An optional field is an \<open>option\<close>.
\<close>

record EvidenceSections =
  activeIngredients :: string
  boxedWarning :: string
  contraindications :: string
  warnings :: string
  warningsAndCautions :: string
  drugInteractions :: string
  pregnancy :: string
  lactation :: string
  pediatricUse :: string
  geriatricUse :: string
  doNotUse :: string
  askDoctor :: string

record LabelSnapshot =
  setId :: string
  effectiveTime :: string
  evidenceHash :: string
  evidenceText :: string
  sections :: EvidenceSections
  brandNames :: "string list"
  genericNames :: "string list"
  activeIngredientsList :: "string list"

record OpenFda =
  brand_name :: "string list option"
  generic_name :: "string list option"
  substance_name :: "string list option"
  manufacturer_name :: "string list option"

record OpenFdaLabelRecord =
  id_field :: "string option"
  set_id :: "string option"
  effective_time :: "string option"
  openfda :: "OpenFda option"
  active_ingredient :: "string list option"
  boxed_warning :: "string list option"
  contraindications_field :: "string list option"
  warnings_field :: "string list option"
  warnings_and_cautions :: "string list option"
  drug_interactions :: "string list option"
  pregnancy_field :: "string list option"
  lactation_field :: "string list option"
  pediatric_use :: "string list option"
  geriatric_use :: "string list option"
  do_not_use :: "string list option"
  ask_doctor :: "string list option"

text \<open>A thrown \<open>new Error(message)\<close>.\<close>

datatype error = Error string

section \<open>Evidence extraction (\<open>evidence.ts\<close>)\<close>

text \<open>\<open>joinSection\<close>, at the type the label record gives its sections (a list of strings,
  or absent).\<close>

definition joinSection :: "string list option \<Rightarrow> string" where
  "joinSection v = (case v of None \<Rightarrow> [] | Some xs \<Rightarrow> join [CHR 0x0A] (map safeOneLine xs))"

definition extractEvidenceSections :: "OpenFdaLabelRecord \<Rightarrow> EvidenceSections" where
  "extractEvidenceSections record =
     \<lparr> activeIngredients = joinSection (active_ingredient record),
       boxedWarning = joinSection (boxed_warning record),
       contraindications = joinSection (contraindications_field record),
       warnings = joinSection (warnings_field record),
       warningsAndCautions = joinSection (warnings_and_cautions record),
       drugInteractions = joinSection (drug_interactions record),
       pregnancy = joinSection (pregnancy_field record),
       lactation = joinSection (lactation_field record),
       pediatricUse = joinSection (pediatric_use record),
       geriatricUse = joinSection (geriatric_use record),
       doNotUse = joinSection (do_not_use record),
       askDoctor = joinSection (ask_doctor record) \<rparr>"

definition parts :: "EvidenceSections \<Rightarrow> (string \<times> string) list" where
  "parts secs =
     [ (''ACTIVE INGREDIENTS'', activeIngredients secs),
       (''BOXED WARNING'', boxedWarning secs),
       (''CONTRAINDICATIONS'', contraindications secs),
       (''WARNINGS'', warnings secs),
       (''WARNINGS AND CAUTIONS'', warningsAndCautions secs),
       (''DRUG INTERACTIONS'', drugInteractions secs),
       (''PREGNANCY'', pregnancy secs),
       (''LACTATION'', lactation secs),
       (''PEDIATRIC USE'', pediatricUse secs),
       (''GERIATRIC USE'', geriatricUse secs),
       (''DO NOT USE'', doNotUse secs),
       (''ASK A DOCTOR'', askDoctor secs) ]"

definition renderPart :: "string \<times> string \<Rightarrow> string" where
  "renderPart p =
     (let clean = trim (replaceRuns isSpace (safeOneLine (snd p)))
      in ''=== '' @ fst p @ '' ==='' @ [CHR 0x0A] @ clean)"

definition buildCanonicalEvidenceText :: "EvidenceSections \<Rightarrow> string" where
  "buildCanonicalEvidenceText secs = join [CHR 0x0A, CHR 0x0A] (map renderPart (parts secs))"

text \<open>\<open>x ?? []\<close> and \<open>x ?? ''\<close> on an optional list or string.\<close>

definition orEmpty :: "'a list option \<Rightarrow> 'a list" where
  "orEmpty v = (case v of None \<Rightarrow> [] | Some xs \<Rightarrow> xs)"

definition buildLabelSnapshot :: "Host \<Rightarrow> OpenFdaLabelRecord \<Rightarrow> error + LabelSnapshot" where
  "buildLabelSnapshot host record =
     (let setId' = orEmpty (set_id record);
          effectiveTime' = orEmpty (effective_time record)
      in if setId' = [] \<or> effectiveTime' = []
         then Inl (Error ''openFDA record missing set_id/effective_time; cannot pin evidence.'')
         else
           (let sections' = extractEvidenceSections record;
                evidenceText' = buildCanonicalEvidenceText sections';
                evidenceHash' = sha256Hex host evidenceText'
            in Inr \<lparr> setId = setId',
                     effectiveTime = effectiveTime',
                     evidenceHash = evidenceHash',
                     evidenceText = evidenceText',
                     sections = sections',
                     brandNames = (case openfda record of None \<Rightarrow> [] | Some f \<Rightarrow> orEmpty (brand_name f)),
                     genericNames = (case openfda record of None \<Rightarrow> [] | Some f \<Rightarrow> orEmpty (generic_name f)),
                     activeIngredientsList = orEmpty (active_ingredient record) \<rparr>))"

definition quoteExistsInEvidence :: "string \<Rightarrow> string \<Rightarrow> bool" where
  "quoteExistsInEvidence evidenceText' quote' =
     (let ev = normalizeForMatch evidenceText';
          q = normalizeForMatch quote'
      in q \<noteq> [] \<and> includesStr ev q)"

section \<open>The regular expressions of the policy\<close>

text \<open>
  The six patterns of \<open>BASE_RULES\<close> are alternations of literal words, some between word
  boundaries, and one \<open>\b.+\<close>; all carry the flag \<open>i\<close>. A pattern is a list of
  alternatives, an alternative a list of atoms. \<open>matchAtoms\<close> says whether an alternative
  matches at a position, given the character before it and the text from it on;
  \<open>regexSearch\<close> gives the index of the leftmost position where some alternative matches,
  which is \<open>m.index\<close> of \<open>text.match(pattern)\<close>, and \<open>regexTest\<close> is \<open>pattern.test(text)\<close>.
  The group in \<open>contraindicat(ed|ion)\<close> is written as the two words it stands for.
\<close>

datatype atom = Lit string | WordBoundary | AnyPlus

type_synonym pattern = "atom list list"

definition isWordAt :: "char option \<Rightarrow> bool" where
  "isWordAt c = (case c of None \<Rightarrow> False | Some x \<Rightarrow> isWordChar x)"

fun matchAtoms :: "atom list \<Rightarrow> char option \<Rightarrow> string \<Rightarrow> bool" where
  "matchAtoms [] p r = True"
| "matchAtoms (Lit [] # as) p r = matchAtoms as p r"
| "matchAtoms (Lit (x # xs) # as) p [] = False"
| "matchAtoms (Lit (x # xs) # as) p (c # cs) =
     (lowerChar x = lowerChar c \<and> matchAtoms (Lit xs # as) (Some c) cs)"
| "matchAtoms (WordBoundary # as) p r =
     (isWordAt p \<noteq> isWordAt (case r of [] \<Rightarrow> None | c # cs \<Rightarrow> Some c) \<and> matchAtoms as p r)"
| "matchAtoms (AnyPlus # as) p [] = False"
| "matchAtoms (AnyPlus # as) p (c # cs) =
     (\<not> isLineBreak c \<and> (matchAtoms as (Some c) cs \<or> matchAtoms (AnyPlus # as) (Some c) cs))"

fun searchFrom :: "pattern \<Rightarrow> char option \<Rightarrow> string \<Rightarrow> nat \<Rightarrow> nat option" where
  "searchFrom pat p [] i = (if list_ex (\<lambda>alt. matchAtoms alt p []) pat then Some i else None)"
| "searchFrom pat p (c # cs) i =
     (if list_ex (\<lambda>alt. matchAtoms alt p (c # cs)) pat then Some i
      else searchFrom pat (Some c) cs (i + 1))"

definition regexSearch :: "pattern \<Rightarrow> string \<Rightarrow> nat option" where
  "regexSearch pat text = searchFrom pat None text 0"

definition regexTest :: "pattern \<Rightarrow> string \<Rightarrow> bool" where
  "regexTest pat text = (regexSearch pat text \<noteq> None)"

section \<open>The policy engine (\<open>policy.ts\<close>)\<close>

datatype PregnancyStatus = no | trying | pregnant_t1 | pregnant_t2 | pregnant_t3 | unknown

text \<open>The fields of the profile the policy reads.\<close>

record RxGuardProfile =
  pregnancy_status :: "PregnancyStatus option"
  conditions :: "string list option"
  currentMeds :: "string list option"

record EvidenceQuote =
  quote_section :: string
  quote :: string
  reason :: "string option"

record PolicyResult =
  decision :: Decision
  risk :: RiskLabel
  rulesTriggered :: "string list"
  clarifyingQuestion :: "string option"
  quotes :: "EvidenceQuote list"

record KeywordRule =
  rule_id :: string
  rule_section :: string
  rule_pattern :: pattern
  rule_reason :: string
  severity :: RiskLabel

definition BASE_RULES :: "KeywordRule list" where
  "BASE_RULES =
     [ \<lparr> rule_id = ''BOXED_WARNING_PRESENT'', rule_section = ''boxedWarning'',
         rule_pattern = [[WordBoundary, AnyPlus]],
         rule_reason = ''Boxed warning section is present.'', severity = HIGH \<rparr>,
       \<lparr> rule_id = ''CONTRAINDICATION_MENTION'', rule_section = ''contraindications'',
         rule_pattern = [[Lit ''contraindicated''], [Lit ''contraindication''],
           [WordBoundary, Lit ''do not use'', WordBoundary],
           [WordBoundary, Lit ''should not'', WordBoundary],
           [WordBoundary, Lit ''must not'', WordBoundary]],
         rule_reason = ''Contraindication / strong avoidance language appears.'', severity = HIGH \<rparr>,
       \<lparr> rule_id = ''PREGNANCY_RISK_LANGUAGE'', rule_section = ''pregnancy'',
         rule_pattern = [[Lit ''pregnan''], [Lit ''fetal''], [Lit ''embryo''], [Lit ''teratogen''],
           [Lit ''ductus arteriosus'']],
         rule_reason = ''Pregnancy-related risk language appears.'', severity = HIGH \<rparr>,
       \<lparr> rule_id = ''BLEEDING_RISK_LANGUAGE'', rule_section = ''CANONICAL'',
         rule_pattern = [[Lit ''bleed''], [Lit ''hemorrhag''], [Lit ''gastrointestinal''], [Lit ''ulcer'']],
         rule_reason = ''Bleeding risk language appears.'', severity = MODERATE \<rparr>,
       \<lparr> rule_id = ''RENAL_RISK_LANGUAGE'', rule_section = ''CANONICAL'',
         rule_pattern = [[Lit ''renal''], [Lit ''kidney''], [Lit ''nephro'']],
         rule_reason = ''Kidney/renal risk language appears.'', severity = MODERATE \<rparr>,
       \<lparr> rule_id = ''DRUG_INTERACTION_SECTION'', rule_section = ''drugInteractions'',
         rule_pattern = [[Lit ''interact''], [Lit ''concomitant''], [Lit ''co-administration''],
           [Lit ''avoid'']],
         rule_reason = ''Drug interaction language appears.'', severity = MODERATE \<rparr> ]"

text \<open>\<open>s[key]\<close> on the sections object: the field of that name, if there is one.\<close>

definition sectionByKey :: "EvidenceSections \<Rightarrow> string \<Rightarrow> string option" where
  "sectionByKey s key =
     map_of
       [ (''activeIngredients'', activeIngredients s), (''boxedWarning'', boxedWarning s),
         (''contraindications'', contraindications s), (''warnings'', warnings s),
         (''warningsAndCautions'', warningsAndCautions s), (''drugInteractions'', drugInteractions s),
         (''pregnancy'', pregnancy s), (''lactation'', lactation s),
         (''pediatricUse'', pediatricUse s), (''geriatricUse'', geriatricUse s),
         (''doNotUse'', doNotUse s), (''askDoctor'', askDoctor s) ] key"

definition getSectionText :: "LabelSnapshot \<Rightarrow> string \<Rightarrow> string" where
  "getSectionText snapshot key =
     (if key = ''CANONICAL'' then evidenceText snapshot
      else orEmpty (sectionByKey (sections snapshot) key))"

definition extractQuote :: "string \<Rightarrow> pattern \<Rightarrow> string option" where
  "extractQuote text pat =
     (case regexSearch pat text of
        None \<Rightarrow> None
      | Some index \<Rightarrow>
          (let chunk = chunkTextAround text (int index) 220
           in if chunk \<noteq> [] then Some chunk else None))"

definition profileHasPregnancy :: "RxGuardProfile option \<Rightarrow> bool" where
  "profileHasPregnancy profile =
     (case profile of
        None \<Rightarrow> False
      | Some p \<Rightarrow>
          (case pregnancy_status p of
             None \<Rightarrow> False
           | Some st \<Rightarrow> st \<noteq> no \<and> st \<noteq> unknown))"

definition profileHasCondition :: "RxGuardProfile option \<Rightarrow> string list \<Rightarrow> bool" where
  "profileHasCondition profile keywords =
     (let cond = map normalizeForMatch
            (case profile of None \<Rightarrow> [] | Some p \<Rightarrow> orEmpty (conditions p))
      in list_ex (\<lambda>k. list_ex (\<lambda>c. includesStr c (normalizeForMatch k)) cond) keywords)"

definition profileHasMed :: "RxGuardProfile option \<Rightarrow> string \<Rightarrow> bool" where
  "profileHasMed profile med =
     (let meds = map normalizeForMatch
            (case profile of None \<Rightarrow> [] | Some p \<Rightarrow> orEmpty (currentMeds p))
      in list_ex (\<lambda>m. includesStr m (normalizeForMatch med)) meds)"

definition anyOtherMedMentionedInInteractions :: "LabelSnapshot \<Rightarrow> string list \<Rightarrow> string list" where
  "anyOtherMedMentionedInInteractions snapshot otherMeds =
     (let interactions = normalizeForMatch (drugInteractions (sections snapshot))
      in filter (\<lambda>med. let m = normalizeForMatch med in m \<noteq> [] \<and> includesStr interactions m)
           otherMeds)"

definition quoteAroundSubstring :: "string \<Rightarrow> string \<Rightarrow> string option" where
  "quoteAroundSubstring haystack needle =
     (let h = normalizeForMatch haystack;
          n = normalizeForMatch needle;
          idx = indexOf h n
      in if idx < 0 then None
         else
           (let rawIdx = indexOf (toLowerCase haystack) n;
                around = chunkTextAround haystack (if rawIdx \<ge> 0 then rawIdx else 0) 220
            in if around \<noteq> [] then Some around else None))"

text \<open>
  One turn of the loop over \<open>BASE_RULES\<close> in \<open>evaluatePolicy\<close>. The loop's variables are
  \<open>rulesTriggered\<close>, \<open>quotes\<close> and \<open>risk\<close>; each \<open>continue\<close> leaves them as they are.
\<close>

type_synonym loopState = "string list \<times> EvidenceQuote list \<times> RiskLabel"

definition applyRule :: "LabelSnapshot \<Rightarrow> RxGuardProfile option \<Rightarrow> loopState \<Rightarrow> KeywordRule \<Rightarrow> loopState" where
  "applyRule snapshot profile st rule =
     (case st of (rulesTriggered', quotes', risk') \<Rightarrow>
        (let sectionText = getSectionText snapshot (rule_section rule)
         in if sectionText = [] then st
            else if \<not> regexTest (rule_pattern rule) sectionText then st
            else if rule_id rule = ''PREGNANCY_RISK_LANGUAGE'' \<and> \<not> profileHasPregnancy profile then st
            else
              (rulesTriggered' @ [rule_id rule],
               (case extractQuote sectionText (rule_pattern rule) of
                  None \<Rightarrow> quotes'
                | Some q \<Rightarrow>
                    quotes' @
                      [\<lparr> quote_section =
                           (if rule_section rule = ''CANONICAL'' then ''LABEL'' else rule_section rule),
                         quote = q, reason = Some (rule_reason rule) \<rparr>]),
               bumpRisk risk' (severity rule))))"

definition ellipsis :: string where
  "ellipsis = [CHR 0xE2, CHR 0x80, CHR 0xA6]"

definition interactionReason :: "string \<Rightarrow> string" where
  "interactionReason hit =
     ''The interaction section mentions '' @ [CHR 0xE2, CHR 0x80, CHR 0x9C] @ hit
       @ [CHR 0xE2, CHR 0x80, CHR 0x9D] @ ''.''"

definition noEvidenceQuestion :: string where
  "noEvidenceQuestion =
     ''I could not retrieve the FDA label evidence for this medication. Can you provide the exact product name (and strength) from the package?''"

definition moreContextQuestion :: string where
  "moreContextQuestion =
     ''To check safety, I need more context (dose/formulation, your conditions, and other meds). What exact product are you using (including strength), and are you taking any other medications?''"

text \<open>
  \<open>evaluatePolicy\<close>, in the order of its body: the loop over \<open>BASE_RULES\<close>, the two
  profile-aware upgrades, the check of the other medications against the interaction
  section, the decision mapping, and the fallback quote. Each stage takes the variables
  \<open>rulesTriggered\<close>, \<open>quotes\<close> and \<open>risk\<close> as the stage before left them.
\<close>

definition baseRules :: "LabelSnapshot \<Rightarrow> RxGuardProfile option \<Rightarrow> loopState" where
  "baseRules snapshot profile = foldl (applyRule snapshot profile) ([], [], UNKNOWN) BASE_RULES"

definition anticoagulantUpgrade :: "RxGuardProfile option \<Rightarrow> loopState \<Rightarrow> loopState" where
  "anticoagulantUpgrade profile st =
     (case st of (rulesTriggered', quotes', risk') \<Rightarrow>
        (let anticoagulant = (profileHasMed profile ''warfarin'' \<or> profileHasMed profile ''apixaban''
               \<or> profileHasMed profile ''rivaroxaban'' \<or> profileHasMed profile ''dabigatran'')
         in if anticoagulant \<and> ''BLEEDING_RISK_LANGUAGE'' \<in> set rulesTriggered'
            then (rulesTriggered' @ [''PROFILE_ANTICOAGULANT_UPGRADE''], quotes', bumpRisk risk' HIGH)
            else st))"

definition ckdUpgrade :: "RxGuardProfile option \<Rightarrow> loopState \<Rightarrow> loopState" where
  "ckdUpgrade profile st =
     (case st of (rulesTriggered', quotes', risk') \<Rightarrow>
        (let ckd = profileHasCondition profile [''ckd'', ''kidney'', ''renal'']
         in if ckd \<and> ''RENAL_RISK_LANGUAGE'' \<in> set rulesTriggered'
            then (rulesTriggered' @ [''PROFILE_CKD_UPGRADE''], quotes', bumpRisk risk' HIGH)
            else st))"

definition interactionQuotes :: "LabelSnapshot \<Rightarrow> string list \<Rightarrow> EvidenceQuote list" where
  "interactionQuotes snapshot interactionHits =
     concat (map (\<lambda>hit.
        (case quoteAroundSubstring (drugInteractions (sections snapshot)) hit of
           None \<Rightarrow> []
         | Some q \<Rightarrow> [\<lparr> quote_section = ''drugInteractions'', quote = q,
                        reason = Some (interactionReason hit) \<rparr>]))
      (take 3 interactionHits))"

definition otherMedsCheck :: "LabelSnapshot \<Rightarrow> string list option \<Rightarrow> loopState \<Rightarrow> loopState" where
  "otherMedsCheck snapshot otherMeds st =
     (case st of (rulesTriggered', quotes', risk') \<Rightarrow>
        (let meds = filter (\<lambda>m. m \<noteq> []) (orEmpty otherMeds);
             interactionHits = (if meds \<noteq> [] then anyOtherMedMentionedInInteractions snapshot meds else [])
         in if interactionHits \<noteq> []
            then (rulesTriggered' @ [''INTERACTION_OTHER_MED_MENTIONED''],
                  quotes' @ interactionQuotes snapshot interactionHits,
                  bumpRisk risk' HIGH)
            else st))"

text \<open>The decision mapping: the decision, the clarifying question and the risk returned.\<close>

definition decisionMapping :: "LabelSnapshot \<Rightarrow> RiskLabel \<Rightarrow> Decision \<times> string option \<times> RiskLabel" where
  "decisionMapping snapshot risk' =
     (if evidenceText snapshot = [] then (CLARIFY, Some noEvidenceQuestion, UNKNOWN)
      else if risk' = HIGH then (BLOCK, None, risk')
      else if risk' = MODERATE then (CAUTION, None, risk')
      else if risk' = LOW then (INFO, None, risk')
      else (CLARIFY, Some moreContextQuestion, risk'))"

definition fallbackQuote :: "LabelSnapshot \<Rightarrow> EvidenceQuote" where
  "fallbackQuote snapshot =
     \<lparr> quote_section = ''LABEL'',
       quote = slice (evidenceText snapshot) 0 280
         @ (if length (evidenceText snapshot) > 280 then ellipsis else []),
       reason = Some ''Label evidence snapshot (preview).'' \<rparr>"

definition ensureQuotes :: "LabelSnapshot \<Rightarrow> Decision \<Rightarrow> EvidenceQuote list \<Rightarrow> EvidenceQuote list" where
  "ensureQuotes snapshot decision' quotes' =
     (if (decision' = BLOCK \<or> decision' = CAUTION) \<and> quotes' = []
      then quotes' @ [fallbackQuote snapshot]
      else quotes')"

definition evaluatePolicy :: "LabelSnapshot \<Rightarrow> RxGuardProfile option \<Rightarrow> string list option \<Rightarrow> PolicyResult" where
  "evaluatePolicy snapshot profile otherMeds =
     (case otherMedsCheck snapshot otherMeds
             (ckdUpgrade profile (anticoagulantUpgrade profile (baseRules snapshot profile))) of
        (rulesTriggered', quotes', risk') \<Rightarrow>
          (case decisionMapping snapshot risk' of
             (decision', clarifyingQuestion', risk'') \<Rightarrow>
               \<lparr> decision = decision', risk = risk'', rulesTriggered = rulesTriggered',
                 clarifyingQuestion = clarifyingQuestion',
                 quotes = ensureQuotes snapshot decision' quotes' \<rparr>))"

section \<open>The proof card and the response (\<open>rxguard.ts\<close>)\<close>

record ProofCard =
  source :: string
  setId_card :: string
  effectiveTime_card :: string
  evidenceHash_card :: string
  quotes_card :: "EvidenceQuote list"

definition buildProofCard :: "string \<Rightarrow> string \<Rightarrow> string \<Rightarrow> string \<Rightarrow> EvidenceQuote list \<Rightarrow> ProofCard" where
  "buildProofCard setId' effectiveTime' evidenceHash' evidenceText' quotes' =
     (let verified = filter (\<lambda>q. quoteExistsInEvidence evidenceText' (quote q)) quotes'
      in \<lparr> source = ''openFDA'', setId_card = setId', effectiveTime_card = effectiveTime',
           evidenceHash_card = evidenceHash', quotes_card = verified \<rparr>)"

section \<open>Choosing among candidate records (\<open>openfda.ts\<close>)\<close>

definition effectiveTimeToNumber :: "Host \<Rightarrow> string option \<Rightarrow> rat" where
  "effectiveTimeToNumber host effectiveTime' =
     (case effectiveTime' of
        None \<Rightarrow> 0
      | Some t \<Rightarrow>
          if t = [] then 0
          else (case js_Number host t of None \<Rightarrow> 0 | Some n \<Rightarrow> n))"

text \<open>\<open>(a.id ?? a.set_id ?? '').toString()\<close>.\<close>

definition stableId :: "OpenFdaLabelRecord \<Rightarrow> string" where
  "stableId a = (case id_field a of Some i \<Rightarrow> i | None \<Rightarrow> orEmpty (set_id a))"

text \<open>The comparator handed to \<open>sort\<close> in \<open>chooseDeterministicRecord\<close>.\<close>

definition compareRecords :: "Host \<Rightarrow> OpenFdaLabelRecord \<Rightarrow> OpenFdaLabelRecord \<Rightarrow> rat" where
  "compareRecords host a b =
     (let ta = effectiveTimeToNumber host (effective_time a);
          tb = effectiveTimeToNumber host (effective_time b)
      in if tb \<noteq> ta then tb - ta
         else of_int (js_localeCompare host (stableId a) (stableId b)))"

text \<open>
  \<open>Array.prototype.sort(cmp)\<close> is stable: \<open>a\<close> stays before \<open>b\<close> unless \<open>cmp(a, b) > 0\<close>
  puts it behind. It is modelled as the stable insertion sort, which is what every sort
  returns for a comparator that is a consistent ordering.
\<close>

fun insertBy :: "('a \<Rightarrow> 'a \<Rightarrow> rat) \<Rightarrow> 'a \<Rightarrow> 'a list \<Rightarrow> 'a list" where
  "insertBy cmp x [] = [x]"
| "insertBy cmp x (y # ys) = (if cmp x y \<le> 0 then x # y # ys else y # insertBy cmp x ys)"

definition sortBy :: "('a \<Rightarrow> 'a \<Rightarrow> rat) \<Rightarrow> 'a list \<Rightarrow> 'a list" where
  "sortBy cmp xs = foldr (insertBy cmp) xs []"

definition chooseDeterministicRecord :: "Host \<Rightarrow> OpenFdaLabelRecord list \<Rightarrow> OpenFdaLabelRecord option" where
  "chooseDeterministicRecord host records =
     (if records = [] then None
      else (case sortBy (compareRecords host) records of [] \<Rightarrow> None | r # rs \<Rightarrow> Some r))"

text \<open>The parsed effective time of a record, the sort key.\<close>

definition recordTime :: "Host \<Rightarrow> OpenFdaLabelRecord \<Rightarrow> rat" where
  "recordTime host r = effectiveTimeToNumber host (effective_time r)"

text \<open>
  What the theorem on \<open>chooseDeterministicRecord\<close> asks of the host's \<open>localeCompare\<close>: that it
  orders strings consistently, \<open>a\<close> being before \<open>b\<close> exactly when \<open>b\<close> is after \<open>a\<close> and
  the order being transitive, as a collation does. \<open>sort\<close> promises nothing for a
  comparator that is not consistent.
\<close>

definition consistentCompare :: "(string \<Rightarrow> string \<Rightarrow> int) \<Rightarrow> bool" where
  "consistentCompare lc =
     ((\<forall>a b. (lc a b < 0) = (0 < lc b a))
      \<and> (\<forall>a b c. lc a b \<le> 0 \<and> lc b c \<le> 0 \<longrightarrow> lc a c \<le> 0))"

text \<open>The default \<open>sort()\<close> of a list of strings orders them by their code units.\<close>

definition normalizedActiveIngredientList :: "OpenFdaLabelRecord \<Rightarrow> string list" where
  "normalizedActiveIngredientList r =
     sort (filter (\<lambda>s. s \<noteq> []) (map (\<lambda>s. toLowerCase (safeOneLine s)) (orEmpty (active_ingredient r))))"

definition aiKey :: "OpenFdaLabelRecord \<Rightarrow> string" where
  "aiKey r = join '' | '' (normalizedActiveIngredientList r)"

text \<open>Ingredient names that are not empty and have no vertical bar: on lists of such
  names the key \<open>aiKey\<close> joins with \<open>'' | ''\<close> is one-to-one.\<close>

definition barFree :: "string list \<Rightarrow> bool" where
  "barFree xs = list_all (\<lambda>x. x \<noteq> [] \<and> CHR ''|'' \<notin> set x) xs"

definition detectAmbiguity :: "OpenFdaLabelRecord list \<Rightarrow> bool \<times> (OpenFdaLabelRecord \<times> string) list" where
  "detectAmbiguity records =
     (let options = map (\<lambda>r. (r, aiKey r)) records;
          unique = set (map snd options)
      in (card unique > 1 \<and> length records > 1, options))"

section \<open>The resolution cache (\<open>labelCache.ts\<close>)\<close>

text \<open>
  The two in-memory maps, the two Firestore collections and the storage bucket are the
  state, passed in and returned. The calls are awaited one after the other, so one call
  of \<open>resolveDrugToPinnedLabel\<close> is a sequential function of the state. A document of
  \<open>rxguard_labels\<close> holds what \<open>upsertSnapshot\<close> writes (without the \<open>updatedAt\<close> stamp and
  the fixed \<open>source\<close> tag). What \<open>fetchLabelCandidates\<close> answers is an input: the list of
  records of the response, or the error it throws.
\<close>

record LabelDoc =
  setId_doc :: string
  effectiveTime_doc :: string
  evidenceHash_doc :: string
  evidenceText_doc :: "string option"
  evidenceStoragePath_doc :: "string option"
  sections_doc :: EvidenceSections
  brandNames_doc :: "string list"
  genericNames_doc :: "string list"
  activeIngredientsList_doc :: "string list"

record IndexDoc =
  docId_idx :: string
  setId_idx :: string
  effectiveTime_idx :: string

record Stores =
  memDrugToDocId :: "string \<rightharpoonup> string"
  memDocIdToSnapshot :: "string \<rightharpoonup> LabelSnapshot"
  rxguard_labels :: "string \<rightharpoonup> LabelDoc"
  rxguard_drug_index :: "string \<rightharpoonup> IndexDoc"
  adminBucket :: "string \<rightharpoonup> string"

datatype Kind = ok | not_found | ambiguous

record LabelOption =
  brandNames_opt :: "string list"
  genericNames_opt :: "string list"
  activeIngredients_opt :: "string list"
  setId_opt :: "string option"
  effectiveTime_opt :: "string option"

record LabelResolutionResult =
  kind :: Kind
  drugQuery_res :: string
  normalizedDrugQuery_res :: string
  snapshot_res :: "LabelSnapshot option"
  options_res :: "LabelOption list option"
  reason_res :: "string option"

definition isKeyChar :: "char \<Rightarrow> bool" where
  "isKeyChar c = (let n = (of_char c :: nat) in
     (97 \<le> n \<and> n \<le> 122) \<or> (48 \<le> n \<and> n \<le> 57) \<or> isSpace c \<or> c = CHR ''-'')"

definition normalizeForKey :: "string \<Rightarrow> string" where
  "normalizeForKey s =
     replaceRuns isSpace (filter isKeyChar (replaceRuns isSpace (trim (toLowerCase s))))"

definition MAX_FIRESTORE_DOC_BYTES :: nat where
  "MAX_FIRESTORE_DOC_BYTES = 900000"

definition makeLabelDocId :: "LabelSnapshot \<Rightarrow> string" where
  "makeLabelDocId snapshot = setId snapshot @ ''_'' @ effectiveTime snapshot"

definition readEvidenceTextFromStorage :: "Stores \<Rightarrow> string \<Rightarrow> error + string" where
  "readEvidenceTextFromStorage st storagePath =
     (case adminBucket st storagePath of
        None \<Rightarrow> Inl (Error ''No such object'')
      | Some buf \<Rightarrow> Inr buf)"

definition getSnapshotByDocId :: "Stores \<Rightarrow> string \<Rightarrow> error + (LabelSnapshot option \<times> Stores)" where
  "getSnapshotByDocId st docId =
     (case memDocIdToSnapshot st docId of
        Some mem \<Rightarrow> Inr (Some mem, st)
      | None \<Rightarrow>
          (case rxguard_labels st docId of
             None \<Rightarrow> Inr (None, st)
           | Some data \<Rightarrow>
               (case (if orEmpty (evidenceText_doc data) \<noteq> [] then Inr (orEmpty (evidenceText_doc data))
                      else if orEmpty (evidenceStoragePath_doc data) \<noteq> []
                      then readEvidenceTextFromStorage st (orEmpty (evidenceStoragePath_doc data))
                      else Inr []) of
                  Inl e \<Rightarrow> Inl e
                | Inr evidenceText' \<Rightarrow>
                    if evidenceText' = [] then Inr (None, st)
                    else
                      (let snapshot =
                             \<lparr> setId = setId_doc data, effectiveTime = effectiveTime_doc data,
                               evidenceHash = evidenceHash_doc data, evidenceText = evidenceText',
                               sections = sections_doc data, brandNames = brandNames_doc data,
                               genericNames = genericNames_doc data,
                               activeIngredientsList = activeIngredientsList_doc data \<rparr>
                       in Inr (Some snapshot,
                               st\<lparr> memDocIdToSnapshot := (memDocIdToSnapshot st)(docId \<mapsto> snapshot) \<rparr>)))))"

text \<open>\<open>docRef.set(fields, { merge: true })\<close>: the fields given replace those of the stored
  document; a field left out (the evidence text or its storage path) keeps its stored value.\<close>

definition upsertSnapshot :: "Stores \<Rightarrow> LabelSnapshot \<Rightarrow> string \<Rightarrow> string \<times> Stores" where
  "upsertSnapshot st snapshot drugKey =
     (let docId = makeLabelDocId snapshot;
          evidenceBytes = length (evidenceText snapshot);
          inline = (evidenceBytes \<le> MAX_FIRESTORE_DOC_BYTES);
          evidenceText' = (if inline then Some (evidenceText snapshot) else None);
          evidenceStoragePath = (if inline then None else Some (''rxguard/labels/'' @ docId @ ''.txt''));
          bucket' = (case evidenceStoragePath of
                       None \<Rightarrow> adminBucket st
                     | Some path \<Rightarrow> (adminBucket st)(path \<mapsto> evidenceText snapshot));
          old = rxguard_labels st docId;
          doc = \<lparr> setId_doc = setId snapshot, effectiveTime_doc = effectiveTime snapshot,
                  evidenceHash_doc = evidenceHash snapshot,
                  evidenceText_doc =
                    (if orEmpty evidenceText' \<noteq> [] then evidenceText'
                     else (case old of None \<Rightarrow> None | Some d \<Rightarrow> evidenceText_doc d)),
                  evidenceStoragePath_doc =
                    (if orEmpty evidenceStoragePath \<noteq> [] then evidenceStoragePath
                     else (case old of None \<Rightarrow> None | Some d \<Rightarrow> evidenceStoragePath_doc d)),
                  sections_doc = sections snapshot, brandNames_doc = brandNames snapshot,
                  genericNames_doc = genericNames snapshot,
                  activeIngredientsList_doc = activeIngredientsList snapshot \<rparr>;
          idx = \<lparr> docId_idx = docId, setId_idx = setId snapshot,
                  effectiveTime_idx = effectiveTime snapshot \<rparr>
      in (docId,
          st\<lparr> adminBucket := bucket',
              rxguard_labels := (rxguard_labels st)(docId \<mapsto> doc),
              memDrugToDocId := (memDrugToDocId st)(drugKey \<mapsto> docId),
              memDocIdToSnapshot := (memDocIdToSnapshot st)(docId \<mapsto> snapshot),
              rxguard_drug_index := (rxguard_drug_index st)(drugKey \<mapsto> idx) \<rparr>))"

definition toOption :: "OpenFdaLabelRecord \<Rightarrow> LabelOption" where
  "toOption r =
     \<lparr> brandNames_opt = (case openfda r of None \<Rightarrow> [] | Some f \<Rightarrow> orEmpty (brand_name f)),
       genericNames_opt = (case openfda r of None \<Rightarrow> [] | Some f \<Rightarrow> orEmpty (generic_name f)),
       activeIngredients_opt = orEmpty (active_ingredient r),
       setId_opt = set_id r,
       effectiveTime_opt = effective_time r \<rparr>"

definition okResult :: "string \<Rightarrow> string \<Rightarrow> LabelSnapshot \<Rightarrow> LabelResolutionResult" where
  "okResult drugQuery normalizedDrugQuery cached =
     \<lparr> kind = ok, drugQuery_res = drugQuery, normalizedDrugQuery_res = normalizedDrugQuery,
       snapshot_res = Some cached, options_res = None, reason_res = None \<rparr>"

text \<open>Steps 2 to 4 of \<open>resolveDrugToPinnedLabel\<close>: what happens once both cache lookups
  have missed, on the records the label source answered.\<close>

definition resolveMiss ::
    "Host \<Rightarrow> Stores \<Rightarrow> string \<Rightarrow> string \<Rightarrow> OpenFdaLabelRecord list
      \<Rightarrow> error + (LabelResolutionResult \<times> Stores)" where
  "resolveMiss host st drugQuery normalizedDrugQuery records =
     (if records = []
      then Inr (\<lparr> kind = not_found, drugQuery_res = drugQuery,
                  normalizedDrugQuery_res = normalizedDrugQuery, snapshot_res = None,
                  options_res = None,
                  reason_res = Some ''No openFDA label records matched this medication name.'' \<rparr>, st)
      else
        (let amb = detectAmbiguity records
         in if fst amb
            then Inr (\<lparr> kind = ambiguous, drugQuery_res = drugQuery,
                        normalizedDrugQuery_res = normalizedDrugQuery, snapshot_res = None,
                        options_res = Some (map (\<lambda>opt. toOption (fst opt)) (take 5 (snd amb))),
                        reason_res = Some ''Multiple label records matched this name with different active ingredients / formulations.'' \<rparr>, st)
            else
              (case chooseDeterministicRecord host records of
                 None \<Rightarrow>
                   Inr (\<lparr> kind = not_found, drugQuery_res = drugQuery,
                          normalizedDrugQuery_res = normalizedDrugQuery, snapshot_res = None,
                          options_res = None,
                          reason_res = Some ''No suitable openFDA label record could be selected.'' \<rparr>, st)
               | Some record \<Rightarrow>
                   (case buildLabelSnapshot host record of
                      Inl e \<Rightarrow> Inl e
                    | Inr snapshot \<Rightarrow>
                        (case upsertSnapshot st snapshot normalizedDrugQuery of
                           (docId, st1) \<Rightarrow>
                             (case getSnapshotByDocId st1 docId of
                                Inl e \<Rightarrow> Inl e
                              | Inr (saved, st2) \<Rightarrow>
                                  Inr (okResult drugQuery normalizedDrugQuery
                                         (case saved of None \<Rightarrow> snapshot | Some sv \<Rightarrow> sv), st2)))))))"

definition resolveDrugToPinnedLabel ::
    "Host \<Rightarrow> Stores \<Rightarrow> string \<Rightarrow> error + OpenFdaLabelRecord list
      \<Rightarrow> error + (LabelResolutionResult \<times> Stores)" where
  "resolveDrugToPinnedLabel host st drugQuery fetched =
     (let normalizedDrugQuery = normalizeForKey drugQuery;
          step0 = (case memDrugToDocId st normalizedDrugQuery of
                     None \<Rightarrow> Inr (None, st)
                   | Some memDocId \<Rightarrow>
                       if memDocId = [] then Inr (None, st) else getSnapshotByDocId st memDocId)
      in case step0 of
           Inl e \<Rightarrow> Inl e
         | Inr (Some cached, st0) \<Rightarrow> Inr (okResult drugQuery normalizedDrugQuery cached, st0)
         | Inr (None, st0) \<Rightarrow>
             (let cachedDocId = (case rxguard_drug_index st0 normalizedDrugQuery of
                                   None \<Rightarrow> [] | Some d \<Rightarrow> docId_idx d);
                  step1 = (if cachedDocId = [] then Inr (None, st0)
                           else getSnapshotByDocId st0 cachedDocId)
              in case step1 of
                   Inl e \<Rightarrow> Inl e
                 | Inr (Some cached, st1) \<Rightarrow>
                     Inr (okResult drugQuery normalizedDrugQuery cached,
                          st1\<lparr> memDrugToDocId := (memDrugToDocId st1)(normalizedDrugQuery \<mapsto> cachedDocId) \<rparr>)
                 | Inr (None, st1) \<Rightarrow>
                     (case fetched of
                        Inl e \<Rightarrow> Inl e
                      | Inr records \<Rightarrow> resolveMiss host st1 drugQuery normalizedDrugQuery records)))"

section \<open>The response composer (\<open>rxguard.ts\<close>)\<close>

text \<open>
  The request and the response, without the message text and the optional answers of the
  baseline models: neither the decision, the risk nor the proof card depends on them.
\<close>

record RxGuardRequest =
  question :: string
  primaryDrug :: "string option"
  otherMeds :: "string list option"
  profile :: "RxGuardProfile option"

record RxGuardResponse =
  decision_resp :: Decision
  risk_resp :: RiskLabel
  clarifyingQuestion_resp :: "string option"
  proofCard :: "ProofCard option"
  debug_primaryDrugResolved :: "string option"
  debug_rulesTriggered :: "string list"
  debug_labelDocId :: "string option"

definition clarifyResponse :: "string \<Rightarrow> string \<Rightarrow> RxGuardResponse" where
  "clarifyResponse q rule =
     \<lparr> decision_resp = CLARIFY, risk_resp = UNKNOWN, clarifyingQuestion_resp = Some q,
       proofCard = None, debug_primaryDrugResolved = None, debug_rulesTriggered = [rule],
       debug_labelDocId = None \<rparr>"

definition rxguardAnswer ::
    "Host \<Rightarrow> Stores \<Rightarrow> RxGuardRequest \<Rightarrow> error + OpenFdaLabelRecord list
      \<Rightarrow> error + (RxGuardResponse \<times> Stores)" where
  "rxguardAnswer host st input fetched =
     (let primaryDrug' = trim (orEmpty (primaryDrug input))
      in if primaryDrug' = []
         then Inr (clarifyResponse ''What exact medication name (and strength) is on the package?''
                     ''MISSING_PRIMARY_DRUG'', st)
         else
           (case resolveDrugToPinnedLabel host st primaryDrug' fetched of
              Inl e \<Rightarrow> Inl e
            | Inr (resolution, st') \<Rightarrow>
                if kind resolution = not_found
                then Inr (clarifyResponse
                            ''Can you provide the exact product name (and strength) from the package?''
                            ''LABEL_NOT_FOUND'', st')
                else if kind resolution = ambiguous
                then Inr (clarifyResponse
                            ''Which formulation is yours (active ingredients + strength)?''
                            ''LABEL_AMBIGUOUS'', st')
                else
                  (case snapshot_res resolution of
                     None \<Rightarrow> Inl (Error ''TypeError'')
                   | Some snapshot \<Rightarrow>
                       (let policy = evaluatePolicy snapshot (profile input) (otherMeds input);
                            card = buildProofCard (setId snapshot) (effectiveTime snapshot)
                                     (evidenceHash snapshot) (evidenceText snapshot) (quotes policy)
                        in Inr (\<lparr> decision_resp = decision policy, risk_resp = risk policy,
                                   clarifyingQuestion_resp = clarifyingQuestion policy,
                                   proofCard = Some card,
                                   debug_primaryDrugResolved = Some primaryDrug',
                                   debug_rulesTriggered = rulesTriggered policy,
                                   debug_labelDocId =
                                     Some (setId snapshot @ ''_'' @ effectiveTime snapshot) \<rparr>, st')))))"

text \<open>The state of a server that has resolved nothing yet.\<close>

definition emptyStores :: Stores where
  "emptyStores =
     \<lparr> memDrugToDocId = Map.empty, memDocIdToSnapshot = Map.empty, rxguard_labels = Map.empty,
       rxguard_drug_index = Map.empty, adminBucket = Map.empty \<rparr>"

section \<open>Concrete inputs\<close>

text \<open>
  A host to evaluate the model on concrete inputs. The theorems stated for a host
  \<open>host\<close> hold for every host; this one compares identifiers by their code units, reads
  a string of decimal digits as its number (anything else is not a number), and its digest
  is a placeholder. The records, requests and quotes after it are the inputs of the
  examples.
\<close>

fun compareStrings :: "string \<Rightarrow> string \<Rightarrow> int" where
  "compareStrings [] [] = 0"
| "compareStrings [] (y # ys) = - 1"
| "compareStrings (x # xs) [] = 1"
| "compareStrings (x # xs) (y # ys) =
     (if (of_char x :: nat) < of_char y then - 1
      else if (of_char y :: nat) < of_char x then 1
      else compareStrings xs ys)"

fun digitsValue :: "string \<Rightarrow> int \<Rightarrow> int option" where
  "digitsValue [] acc = Some acc"
| "digitsValue (c # cs) acc =
     (let n = (of_char c :: int)
      in if 48 \<le> n \<and> n \<le> 57 then digitsValue cs (10 * acc + (n - 48)) else None)"

definition exampleHost :: Host where
  "exampleHost =
     \<lparr> crypto_sha256_hex = (\<lambda>text. text),
       js_Number = (\<lambda>s. if s = [] then Some 0 else map_option of_int (digitsValue s 0)),
       js_localeCompare = compareStrings \<rparr>"

definition emptyRecord :: OpenFdaLabelRecord where
  "emptyRecord =
     \<lparr> id_field = None, set_id = None, effective_time = None, openfda = None,
       active_ingredient = None, boxed_warning = None, contraindications_field = None,
       warnings_field = None, warnings_and_cautions = None, drug_interactions = None,
       pregnancy_field = None, lactation_field = None, pediatric_use = None,
       geriatric_use = None, do_not_use = None, ask_doctor = None \<rparr>"

definition ibuprofenRecord :: OpenFdaLabelRecord where
  "ibuprofenRecord =
     emptyRecord
       \<lparr> id_field := Some ''id-7'', set_id := Some ''abc-123'', effective_time := Some ''20240101'',
         active_ingredient := Some [''Ibuprofen 200 mg''],
         warnings_field := Some [''Stomach bleeding warning: NSAIDs may cause severe bleeding.''],
         drug_interactions := Some [''Avoid concomitant use with Warfarin.''] \<rparr>"

definition noEvidenceSnapshot :: LabelSnapshot where
  "noEvidenceSnapshot =
     \<lparr> setId = ''s1'', effectiveTime = ''20240101'', evidenceHash = [], evidenceText = [],
       sections = extractEvidenceSections (emptyRecord\<lparr> boxed_warning := Some [''Risk of death''] \<rparr>),
       brandNames = [], genericNames = [], activeIngredientsList = [] \<rparr>"

definition verbatimQuote :: EvidenceQuote where
  "verbatimQuote = \<lparr> quote_section = ''warnings'', quote = ''  NOT use  with Warfarin'', reason = None \<rparr>"

definition fabricatedQuote :: EvidenceQuote where
  "fabricatedQuote = \<lparr> quote_section = ''warnings'', quote = ''safe with Warfarin'', reason = None \<rparr>"

definition candidates :: "OpenFdaLabelRecord list" where
  "candidates =
     [ emptyRecord\<lparr> id_field := Some ''a'', effective_time := Some ''20230101'' \<rparr>,
       emptyRecord\<lparr> id_field := Some ''a'', effective_time := Some ''n/a'' \<rparr>,
       emptyRecord\<lparr> set_id := Some ''set-b'', effective_time := Some ''20240101'' \<rparr>,
       emptyRecord\<lparr> id_field := Some ''id-a'', set_id := Some ''set-a'', effective_time := Some ''20240101'' \<rparr> ]"

text \<open>
  A second host, whose \<open>localeCompare\<close> orders letters without regard to their case first
  and, between strings that differ in case only, puts the lower case first, as the default
  collation of the runtime does on ASCII letters: \<open>'a'.localeCompare('Z')\<close> is negative
  there, while \<open>Z\<close> is before \<open>a\<close> in the order of the code units.
\<close>

definition swapCase :: "char \<Rightarrow> char" where
  "swapCase c = (let n = (of_char c :: nat)
     in if 65 \<le> n \<and> n \<le> 90 then char_of (n + 32)
        else if 97 \<le> n \<and> n \<le> 122 then char_of (n - 32) else c)"

definition collationCompare :: "string \<Rightarrow> string \<Rightarrow> int" where
  "collationCompare a b =
     (let c = compareStrings (toLowerCase a) (toLowerCase b)
      in if c \<noteq> 0 then c else compareStrings (map swapCase a) (map swapCase b))"

definition collationHost :: Host where
  "collationHost = exampleHost\<lparr> js_localeCompare := collationCompare \<rparr>"

definition tiedCandidates :: "OpenFdaLabelRecord list" where
  "tiedCandidates =
     [ emptyRecord\<lparr> id_field := Some ''Z'', effective_time := Some ''20240101'' \<rparr>,
       emptyRecord\<lparr> id_field := Some ''a'', effective_time := Some ''20240101'' \<rparr> ]"

definition collidingRecords :: "OpenFdaLabelRecord list" where
  "collidingRecords =
     [ emptyRecord\<lparr> set_id := Some ''s1'', effective_time := Some ''20240101'',
                   active_ingredient := Some [''a | b''] \<rparr>,
       emptyRecord\<lparr> set_id := Some ''s2'', effective_time := Some ''20240102'',
                   active_ingredient := Some [''a'', ''b''] \<rparr> ]"

definition paddedRecord :: OpenFdaLabelRecord where
  "paddedRecord =
     emptyRecord
       \<lparr> set_id := Some ''abc-123'', effective_time := Some ''20240101'',
         drug_interactions := Some (replicate 220 [] @ [''Folic  acid lowers serum levels.'']) \<rparr>"

definition folicAcidRequest :: RxGuardRequest where
  "folicAcidRequest =
     \<lparr> question = ''Can I take it with folic acid?'', primaryDrug = Some ''Phenytoin'',
       otherMeds = Some [''Folic acid''], profile = None \<rparr>"

section \<open>Risk combination\<close>

lemma order_inj: "order a = order b \<Longrightarrow> a = b"
  by (cases a; cases b) simp_all

text \<open>
  C8. Under the scale \<open>UNKNOWN < LOW < MODERATE < HIGH\<close> (the ranks of \<open>order\<close>, which
  are pairwise different), \<open>bumpRisk a b\<close> ranks at least as high as \<open>a\<close> and as \<open>b\<close>,
  \<open>bumpRisk a a = a\<close>, and \<open>bumpRisk a b\<close> is the maximum of the two: it is one of them
  and its rank is the larger rank.
\<close>

theorem bumpRisk_is_max:
  "order a \<le> order (bumpRisk a b) \<and> order b \<le> order (bumpRisk a b)
   \<and> bumpRisk a a = a
   \<and> order (bumpRisk a b) = max (order a) (order b)
   \<and> (bumpRisk a b = a \<or> bumpRisk a b = b)
   \<and> (order UNKNOWN < order LOW \<and> order LOW < order MODERATE \<and> order MODERATE < order HIGH)
   \<and> inj order"
  by (auto simp: bumpRisk_def inj_on_def dest: order_inj)

theorem bumpRisk_is_max_witness:
  "bumpRisk MODERATE HIGH = HIGH \<and> bumpRisk HIGH LOW = HIGH \<and> bumpRisk LOW LOW = LOW"
  using bumpRisk_is_max [of MODERATE HIGH] bumpRisk_is_max [of HIGH LOW] bumpRisk_is_max [of LOW]
  by auto

section \<open>Substrings\<close>

lemma includesStr_sublist: "includesStr h n = sublist n h"
  by (induction h) (simp_all add: sublist_Cons_right)

lemma includesStr_iff: "includesStr h n \<longleftrightarrow> (\<exists>ps ss. h = ps @ n @ ss)"
  by (simp add: includesStr_sublist sublist_def)

section \<open>The policy never reports a low risk\<close>

lemma applyRule_risk:
  assumes "severity rule = HIGH \<or> severity rule = MODERATE" and "snd (snd st) \<noteq> LOW"
  shows "snd (snd (applyRule s p st rule)) \<noteq> LOW"
  using assms by (cases st) (auto simp: applyRule_def Let_def bumpRisk_def split: option.splits)

lemma foldl_applyRule_risk:
  assumes "list_all (\<lambda>r. severity r = HIGH \<or> severity r = MODERATE) rules"
    and "snd (snd st) \<noteq> LOW"
  shows "snd (snd (foldl (applyRule s p) st rules)) \<noteq> LOW"
  using assms
proof (induction rules arbitrary: st)
  case Nil
  then show ?case by simp
next
  case (Cons r rules)
  have "snd (snd (applyRule s p st r)) \<noteq> LOW"
    using Cons.prems by (intro applyRule_risk) simp_all
  with Cons show ?case by simp
qed

lemma BASE_RULES_severity:
  "list_all (\<lambda>r. severity r = HIGH \<or> severity r = MODERATE) BASE_RULES"
  by (simp add: BASE_RULES_def)

lemma baseRules_risk: "snd (snd (baseRules snapshot profile')) \<noteq> LOW"
  unfolding baseRules_def by (rule foldl_applyRule_risk [OF BASE_RULES_severity]) simp

lemma anticoagulantUpgrade_risk:
  "snd (snd st) \<noteq> LOW \<Longrightarrow> snd (snd (anticoagulantUpgrade profile' st)) \<noteq> LOW"
  by (cases st) (simp add: anticoagulantUpgrade_def Let_def bumpRisk_def)

lemma ckdUpgrade_risk:
  "snd (snd st) \<noteq> LOW \<Longrightarrow> snd (snd (ckdUpgrade profile' st)) \<noteq> LOW"
  by (cases st) (simp add: ckdUpgrade_def Let_def bumpRisk_def)

lemma otherMedsCheck_risk:
  "snd (snd st) \<noteq> LOW \<Longrightarrow> snd (snd (otherMedsCheck snapshot otherMeds' st)) \<noteq> LOW"
  by (cases st) (simp add: otherMedsCheck_def Let_def bumpRisk_def)

lemma stages_risk:
  "otherMedsCheck snapshot otherMeds'
     (ckdUpgrade profile' (anticoagulantUpgrade profile' (baseRules snapshot profile'))) = (rt, q, r)
   \<Longrightarrow> r \<noteq> LOW"
  using otherMedsCheck_risk [OF ckdUpgrade_risk [OF anticoagulantUpgrade_risk [OF baseRules_risk]],
      of snapshot otherMeds' profile' profile' snapshot profile']
  by simp

text \<open>
  C9. Whatever the snapshot, the profile and the other medications, \<open>evaluatePolicy\<close>
  returns neither the risk \<open>LOW\<close> nor the decision \<open>INFO\<close>: the risk is \<open>UNKNOWN\<close>,
  \<open>MODERATE\<close> or \<open>HIGH\<close>. The loop starts at \<open>UNKNOWN\<close>, every rule of \<open>BASE_RULES\<close> has the
  severity \<open>HIGH\<close> or \<open>MODERATE\<close>, and the three upgrades raise to \<open>HIGH\<close>.
\<close>

theorem evaluatePolicy_never_LOW:
  "risk (evaluatePolicy snapshot profile' otherMeds') \<noteq> LOW
   \<and> decision (evaluatePolicy snapshot profile' otherMeds') \<noteq> INFO
   \<and> risk (evaluatePolicy snapshot profile' otherMeds') \<in> {UNKNOWN, MODERATE, HIGH}
   \<and> list_all (\<lambda>r. severity r = HIGH \<or> severity r = MODERATE) BASE_RULES"
proof -
  obtain rt q r where f: "otherMedsCheck snapshot otherMeds'
     (ckdUpgrade profile' (anticoagulantUpgrade profile' (baseRules snapshot profile'))) = (rt, q, r)"
    by (metis prod_cases3)
  have r: "r \<noteq> LOW"
    using f by (rule stages_risk)
  have low: "risk (evaluatePolicy snapshot profile' otherMeds') \<noteq> LOW"
    using r by (simp add: evaluatePolicy_def f decisionMapping_def)
  have info: "decision (evaluatePolicy snapshot profile' otherMeds') \<noteq> INFO"
    using r by (simp add: evaluatePolicy_def f decisionMapping_def)
  have "risk (evaluatePolicy snapshot profile' otherMeds') \<in> {UNKNOWN, MODERATE, HIGH}"
    using low by (cases "risk (evaluatePolicy snapshot profile' otherMeds')") simp_all
  with low info show ?thesis
    by (simp add: BASE_RULES_severity)
qed

theorem evaluatePolicy_never_LOW_witness:
  "risk (evaluatePolicy noEvidenceSnapshot None None) = UNKNOWN
   \<and> risk (evaluatePolicy noEvidenceSnapshot None None) \<noteq> LOW
   \<and> decision (evaluatePolicy noEvidenceSnapshot None None) \<noteq> INFO"
proof -
  have "risk (evaluatePolicy noEvidenceSnapshot None None) = UNKNOWN"
    by code_simp
  then show ?thesis
    using evaluatePolicy_never_LOW [of noEvidenceSnapshot None None] by simp
qed

section \<open>A snapshot without evidence text\<close>

text \<open>
  C3. When the evidence text of the snapshot is the empty string, \<open>evaluatePolicy\<close>
  returns the decision \<open>CLARIFY\<close> and the risk \<open>UNKNOWN\<close>, for every profile and every list
  of other medications, whatever the sections of the snapshot hold and whichever rules
  they trigger.
\<close>

theorem evaluatePolicy_empty_evidence:
  "evidenceText snapshot = [] \<Longrightarrow>
     decision (evaluatePolicy snapshot profile' otherMeds') = CLARIFY
     \<and> risk (evaluatePolicy snapshot profile' otherMeds') = UNKNOWN"
  by (simp add: evaluatePolicy_def decisionMapping_def split: prod.splits)

theorem evaluatePolicy_empty_evidence_witness:
  "evidenceText noEvidenceSnapshot = []
   \<and> boxedWarning (sections noEvidenceSnapshot) = ''Risk of death''
   \<and> rulesTriggered (evaluatePolicy noEvidenceSnapshot None None) = [''BOXED_WARNING_PRESENT'']
   \<and> decision (evaluatePolicy noEvidenceSnapshot None None) = CLARIFY
   \<and> risk (evaluatePolicy noEvidenceSnapshot None None) = UNKNOWN"
proof -
  have e: "evidenceText noEvidenceSnapshot = []"
    by (simp add: noEvidenceSnapshot_def)
  have b: "boxedWarning (sections noEvidenceSnapshot) = ''Risk of death''"
    by code_simp
  have r: "rulesTriggered (evaluatePolicy noEvidenceSnapshot None None) = [''BOXED_WARNING_PRESENT'']"
    by code_simp
  show ?thesis
    using evaluatePolicy_empty_evidence [OF e, of None None] e b r by simp
qed

section \<open>The canonical evidence text\<close>

lemma sublist_join: "x \<in> set xs \<Longrightarrow> sublist x (join sep xs)"
proof (induction sep xs rule: join.induct)
  case (1 sep)
  then show ?case by simp
next
  case (2 sep x')
  then show ?case by simp
next
  case (3 sep x' y ys)
  show ?case
  proof (cases "x = x'")
    case True
    then show ?thesis by simp
  next
    case False
    with 3 have "sublist x (join sep (y # ys))" by simp
    then obtain ps ss where "join sep (y # ys) = ps @ x @ ss"
      by (auto simp: sublist_def)
    then have "join sep (x' # y # ys) = (x' @ sep @ ps) @ x @ ss" by simp
    then show ?thesis unfolding sublist_def by blast
  qed
qed

lemma sublist_header_renderPart: "sublist (''=== '' @ t @ '' ==='') (renderPart (t, b))"
proof -
  have "renderPart (t, b) = (''=== '' @ t @ '' ==='') @ [CHR 0x0A] @ trim (replaceRuns isSpace (safeOneLine b))"
    by (simp add: renderPart_def Let_def)
  then show ?thesis by (metis sublist_append_rightI)
qed

lemma header_in_text:
  assumes "(t, b) \<in> set (parts secs)"
  shows "includesStr (buildCanonicalEvidenceText secs) (''=== '' @ t @ '' ==='')"
proof -
  have "renderPart (t, b) \<in> set (map renderPart (parts secs))"
    using assms by (simp add: image_iff) blast
  then have "sublist (renderPart (t, b)) (buildCanonicalEvidenceText secs)"
    unfolding buildCanonicalEvidenceText_def by (rule sublist_join)
  with sublist_header_renderPart [of t b]
  have "sublist (''=== '' @ t @ '' ==='') (buildCanonicalEvidenceText secs)"
    by (rule sublist_order.order.trans)
  then show ?thesis by (simp add: includesStr_sublist)
qed

lemma length_canonical: "290 \<le> length (buildCanonicalEvidenceText secs)"
  by (simp add: buildCanonicalEvidenceText_def parts_def renderPart_def Let_def)

lemma questions_differ: "moreContextQuestion \<noteq> noEvidenceQuestion"
  by (simp add: moreContextQuestion_def noEvidenceQuestion_def)

lemma clarifyingQuestion_cases:
  "evidenceText snapshot \<noteq> [] \<Longrightarrow>
   clarifyingQuestion (evaluatePolicy snapshot profile' otherMeds') = None
   \<or> clarifyingQuestion (evaluatePolicy snapshot profile' otherMeds') = Some moreContextQuestion"
  by (simp add: evaluatePolicy_def decisionMapping_def split: prod.splits)

lemma buildLabelSnapshot_text:
  "buildLabelSnapshot host record = Inr s \<Longrightarrow>
     evidenceText s = buildCanonicalEvidenceText (extractEvidenceSections record)"
  by (auto simp: buildLabelSnapshot_def Let_def split: if_splits)

lemma buildLabelSnapshot_ibuprofen: "\<exists>s. buildLabelSnapshot exampleHost ibuprofenRecord = Inr s"
  by (simp add: buildLabelSnapshot_def ibuprofenRecord_def emptyRecord_def orEmpty_def Let_def)

text \<open>
  C10. For every value of the sections, empty ones included, \<open>buildCanonicalEvidenceText\<close>
  returns a non-empty string that contains each of the twelve header lines
  \<open>=== TITLE ===\<close>. So a snapshot that \<open>buildLabelSnapshot\<close> returns has a non-empty
  evidence text, and \<open>evaluatePolicy\<close> on it never takes the branch for a missing evidence
  text: it never asks that branch's clarifying question.
\<close>

theorem canonical_text_nonempty:
  "buildCanonicalEvidenceText secs \<noteq> []
   \<and> list_all (\<lambda>t. includesStr (buildCanonicalEvidenceText secs) (''=== '' @ t @ '' ===''))
       [''ACTIVE INGREDIENTS'', ''BOXED WARNING'', ''CONTRAINDICATIONS'', ''WARNINGS'',
        ''WARNINGS AND CAUTIONS'', ''DRUG INTERACTIONS'', ''PREGNANCY'', ''LACTATION'',
        ''PEDIATRIC USE'', ''GERIATRIC USE'', ''DO NOT USE'', ''ASK A DOCTOR'']
   \<and> (buildLabelSnapshot host record = Inr s \<longrightarrow>
        evidenceText s \<noteq> []
        \<and> clarifyingQuestion (evaluatePolicy s profile' otherMeds') \<noteq> Some noEvidenceQuestion)"
proof -
  have n: "buildCanonicalEvidenceText t \<noteq> []" for t
    using length_canonical [of t] by auto
  have h: "list_all (\<lambda>t. includesStr (buildCanonicalEvidenceText secs) (''=== '' @ t @ '' ===''))
       (map fst (parts secs))"
    unfolding list_all_iff
  proof
    fix t assume "t \<in> set (map fst (parts secs))"
    then obtain b where "(t, b) \<in> set (parts secs)" by auto
    then show "includesStr (buildCanonicalEvidenceText secs) (''=== '' @ t @ '' ==='')"
      by (rule header_in_text)
  qed
  have m: "map fst (parts secs) = [''ACTIVE INGREDIENTS'', ''BOXED WARNING'', ''CONTRAINDICATIONS'', ''WARNINGS'',
        ''WARNINGS AND CAUTIONS'', ''DRUG INTERACTIONS'', ''PREGNANCY'', ''LACTATION'',
        ''PEDIATRIC USE'', ''GERIATRIC USE'', ''DO NOT USE'', ''ASK A DOCTOR'']"
    by (simp add: parts_def)
  have b: "evidenceText s \<noteq> [] \<and> clarifyingQuestion (evaluatePolicy s profile' otherMeds') \<noteq> Some noEvidenceQuestion"
    if "buildLabelSnapshot host record = Inr s"
  proof -
    have e: "evidenceText s \<noteq> []"
      using buildLabelSnapshot_text [OF that] n by simp
    from clarifyingQuestion_cases [OF e, of profile' otherMeds'] questions_differ e
    show ?thesis by auto
  qed
  from n h b show ?thesis
    unfolding m by blast
qed

theorem canonical_text_nonempty_witness:
  "buildCanonicalEvidenceText (extractEvidenceSections emptyRecord) \<noteq> []
   \<and> length (buildCanonicalEvidenceText (extractEvidenceSections emptyRecord)) = 290
   \<and> includesStr (buildCanonicalEvidenceText (extractEvidenceSections emptyRecord)) ''=== ASK A DOCTOR ===''
   \<and> (\<exists>s. buildLabelSnapshot exampleHost ibuprofenRecord = Inr s \<and> evidenceText s \<noteq> []
          \<and> clarifyingQuestion (evaluatePolicy s None None) \<noteq> Some noEvidenceQuestion)"
proof -
  have l: "length (buildCanonicalEvidenceText (extractEvidenceSections emptyRecord)) = 290"
    by code_simp
  obtain s where s: "buildLabelSnapshot exampleHost ibuprofenRecord = Inr s"
    using buildLabelSnapshot_ibuprofen by blast
  from canonical_text_nonempty [of "extractEvidenceSections emptyRecord" exampleHost ibuprofenRecord s None None] s l
  show ?thesis by auto
qed

section \<open>The proof card keeps verified quotes only\<close>

text \<open>
  C2. Every quote of the proof card that \<open>buildProofCard\<close> returns is one of the candidate
  quotes, and its normalized text is a substring of the normalized evidence text passed
  with them. A candidate that fails the check is left out; the function returns a card
  for every input, and the quotes it keeps are in their order.
\<close>

theorem buildProofCard_quotes_verified:
  "(\<forall>q \<in> set (quotes_card (buildProofCard setId' effectiveTime' evidenceHash' evidenceText' quotes')).
       q \<in> set quotes'
       \<and> (\<exists>ps ss. normalizeForMatch evidenceText' = ps @ normalizeForMatch (quote q) @ ss))
   \<and> (\<forall>q \<in> set quotes'.
         \<not> includesStr (normalizeForMatch evidenceText') (normalizeForMatch (quote q))
         \<longrightarrow> q \<notin> set (quotes_card (buildProofCard setId' effectiveTime' evidenceHash' evidenceText' quotes')))
   \<and> subseq (quotes_card (buildProofCard setId' effectiveTime' evidenceHash' evidenceText' quotes')) quotes'"
  by (auto simp: buildProofCard_def quoteExistsInEvidence_def Let_def includesStr_iff)

theorem buildProofCard_quotes_verified_witness:
  "quotes_card (buildProofCard ''s'' ''t'' ''h'' ''Do not use with   warfarin.'' [fabricatedQuote, verbatimQuote])
     = [verbatimQuote]
   \<and> (\<exists>ps ss. normalizeForMatch ''Do not use with   warfarin.''
         = ps @ normalizeForMatch (quote verbatimQuote) @ ss)"
proof -
  have c: "quotes_card (buildProofCard ''s'' ''t'' ''h'' ''Do not use with   warfarin.'' [fabricatedQuote, verbatimQuote])
     = [verbatimQuote]"
    by code_simp
  show ?thesis
    using buildProofCard_quotes_verified
      [of "''s''" "''t''" "''h''" "''Do not use with   warfarin.''" "[fabricatedQuote, verbatimQuote]"]
    unfolding c by simp
qed

section \<open>Building a snapshot\<close>

text \<open>
  C4. The evidence hash of a snapshot that \<open>buildLabelSnapshot\<close> returns is \<open>sha256Hex\<close> of
  its evidence text, that is the host's hex-encoded SHA-256 digest of it, and the evidence
  text is the canonical text of the record's sections.
\<close>

theorem buildLabelSnapshot_hash:
  "buildLabelSnapshot host record = Inr s \<Longrightarrow>
     evidenceHash s = sha256Hex host (evidenceText s)
     \<and> sha256Hex host (evidenceText s) = crypto_sha256_hex host (evidenceText s)
     \<and> evidenceText s = buildCanonicalEvidenceText (extractEvidenceSections record)"
  by (auto simp: buildLabelSnapshot_def Let_def sha256Hex_def split: if_splits)

theorem buildLabelSnapshot_hash_witness:
  "\<exists>s. buildLabelSnapshot exampleHost ibuprofenRecord = Inr s
       \<and> evidenceHash s = sha256Hex exampleHost (evidenceText s)"
proof -
  obtain s where s: "buildLabelSnapshot exampleHost ibuprofenRecord = Inr s"
    using buildLabelSnapshot_ibuprofen by blast
  from buildLabelSnapshot_hash [OF s] s show ?thesis by blast
qed

text \<open>
  C7, as amended. \<open>buildLabelSnapshot\<close> fails exactly when the record lacks \<open>set_id\<close> or lacks
  \<open>effective_time\<close> (the field is absent or the empty string): one missing field is enough.
  It then throws the error with the message about the missing identity and returns no
  snapshot. A record that has both fields gives a snapshot, whose \<open>setId\<close> and
  \<open>effectiveTime\<close> are the record's.
\<close>

theorem buildLabelSnapshot_identity:
  "((\<exists>e. buildLabelSnapshot host record = Inl e)
      \<longleftrightarrow> (orEmpty (set_id record) = [] \<or> orEmpty (effective_time record) = []))
   \<and> ((\<exists>s. buildLabelSnapshot host record = Inr s)
      \<longleftrightarrow> (orEmpty (set_id record) \<noteq> [] \<and> orEmpty (effective_time record) \<noteq> []))
   \<and> (\<forall>e. buildLabelSnapshot host record = Inl e \<longrightarrow>
         e = Error ''openFDA record missing set_id/effective_time; cannot pin evidence.'')
   \<and> (\<forall>s. buildLabelSnapshot host record = Inr s \<longrightarrow>
         set_id record = Some (setId s) \<and> effective_time record = Some (effectiveTime s))"
  by (auto simp: buildLabelSnapshot_def Let_def orEmpty_def split: if_splits option.splits)

theorem buildLabelSnapshot_identity_witness:
  "(\<exists>s. buildLabelSnapshot exampleHost ibuprofenRecord = Inr s
        \<and> setId s = ''abc-123'' \<and> effectiveTime s = ''20240101'')
   \<and> (\<exists>e. buildLabelSnapshot exampleHost (emptyRecord\<lparr> effective_time := Some ''20240101'' \<rparr>) = Inl e)"
proof -
  have a: "orEmpty (set_id ibuprofenRecord) \<noteq> [] \<and> orEmpty (effective_time ibuprofenRecord) \<noteq> []"
    by (simp add: ibuprofenRecord_def emptyRecord_def orEmpty_def)
  have i: "set_id ibuprofenRecord = Some ''abc-123'' \<and> effective_time ibuprofenRecord = Some ''20240101''"
    by (simp add: ibuprofenRecord_def emptyRecord_def)
  have b: "orEmpty (set_id (emptyRecord\<lparr> effective_time := Some ''20240101'' \<rparr>)) = []"
    by (simp add: emptyRecord_def orEmpty_def)
  from buildLabelSnapshot_identity [of exampleHost ibuprofenRecord] a i
  have 1: "\<exists>s. buildLabelSnapshot exampleHost ibuprofenRecord = Inr s
        \<and> setId s = ''abc-123'' \<and> effectiveTime s = ''20240101''"
    by auto
  from buildLabelSnapshot_identity [of exampleHost "emptyRecord\<lparr> effective_time := Some ''20240101'' \<rparr>"] b
  have 2: "\<exists>e. buildLabelSnapshot exampleHost (emptyRecord\<lparr> effective_time := Some ''20240101'' \<rparr>) = Inl e"
    by blast
  from 1 2 show ?thesis by blast
qed

text \<open>
  The claim as stated, failure exactly when both fields are missing, is false: a record
  with a \<open>set_id\<close> and no \<open>effective_time\<close> fails as well.
\<close>

theorem buildLabelSnapshot_one_field_counterexample:
  "buildLabelSnapshot exampleHost (emptyRecord\<lparr> set_id := Some ''abc-123'' \<rparr>)
     = Inl (Error ''openFDA record missing set_id/effective_time; cannot pin evidence.'')
   \<and> set_id (emptyRecord\<lparr> set_id := Some ''abc-123'' \<rparr>) = Some ''abc-123''
   \<and> effective_time (emptyRecord\<lparr> set_id := Some ''abc-123'' \<rparr>) = None"
  by (simp add: buildLabelSnapshot_def emptyRecord_def orEmpty_def)

section \<open>The record chosen among the candidates\<close>

lemma set_insertBy: "set (insertBy cmp x ys) = insert x (set ys)"
  by (induction ys) auto

lemma set_sortBy: "set (sortBy cmp xs) = set xs"
  unfolding sortBy_def by (induction xs) (simp_all add: set_insertBy)

lemma sorted_insertBy:
  assumes total: "\<And>a b. cmp a b \<le> 0 \<or> cmp b a \<le> 0"
    and trans: "\<And>a b c. cmp a b \<le> 0 \<Longrightarrow> cmp b c \<le> 0 \<Longrightarrow> cmp a c \<le> 0"
    and "sorted_wrt (\<lambda>a b. cmp a b \<le> 0) ys"
  shows "sorted_wrt (\<lambda>a b. cmp a b \<le> 0) (insertBy cmp x ys)"
  using assms(3)
proof (induction ys)
  case Nil
  then show ?case by simp
next
  case (Cons y ys)
  show ?case
  proof (cases "cmp x y \<le> 0")
    case True
    then have "\<forall>z \<in> set ys. cmp x z \<le> 0"
      using Cons.prems trans by auto
    with True Cons.prems show ?thesis by simp
  next
    case False
    then have "cmp y x \<le> 0" using total by blast
    with False Cons show ?thesis by (auto simp: set_insertBy)
  qed
qed

lemma sorted_sortBy:
  assumes "\<And>a b. cmp a b \<le> 0 \<or> cmp b a \<le> 0"
    and "\<And>a b c. cmp a b \<le> 0 \<Longrightarrow> cmp b c \<le> 0 \<Longrightarrow> cmp a c \<le> 0"
  shows "sorted_wrt (\<lambda>a b. cmp a b \<le> 0) (sortBy cmp xs)"
  unfolding sortBy_def
  by (induction xs) (simp_all add: sorted_insertBy [OF assms])

lemma compareRecords_le:
  "compareRecords host a b \<le> 0 \<longleftrightarrow>
     recordTime host b < recordTime host a
     \<or> (recordTime host b = recordTime host a
         \<and> js_localeCompare host (stableId a) (stableId b) \<le> 0)"
  by (auto simp: compareRecords_def recordTime_def Let_def)

lemma consistentCompare_total:
  assumes "consistentCompare lc"
  shows "lc a b \<le> 0 \<or> lc b a \<le> 0"
proof (cases "lc a b \<le> 0")
  case True
  then show ?thesis by simp
next
  case False
  then have "0 < lc a b" by simp
  with assms have "lc b a < 0" by (simp add: consistentCompare_def)
  then show ?thesis by simp
qed

lemma compareRecords_total:
  "consistentCompare (js_localeCompare host) \<Longrightarrow>
     compareRecords host a b \<le> 0 \<or> compareRecords host b a \<le> 0"
  unfolding compareRecords_le
  using consistentCompare_total [of "js_localeCompare host" "stableId a" "stableId b"]
  by (cases "recordTime host a" "recordTime host b" rule: linorder_cases) auto

lemma compareRecords_trans:
  "consistentCompare (js_localeCompare host) \<Longrightarrow>
     compareRecords host a b \<le> 0 \<Longrightarrow> compareRecords host b c \<le> 0 \<Longrightarrow> compareRecords host a c \<le> 0"
  unfolding compareRecords_le consistentCompare_def by (metis order.strict_trans)

lemma sortBy_head_least:
  assumes "consistentCompare (js_localeCompare host)" and "sortBy (compareRecords host) records = r # rs"
  shows "r \<in> set records \<and> (\<forall>x \<in> set records. compareRecords host r x \<le> 0)"
proof -
  have s: "sorted_wrt (\<lambda>a b. compareRecords host a b \<le> 0) (r # rs)"
    using sorted_sortBy [of "compareRecords host" records]
      compareRecords_total [OF assms(1)] compareRecords_trans [OF assms(1)] assms(2)
    by metis
  have m: "set records = insert r (set rs)"
    using set_sortBy [of "compareRecords host" records] assms(2) by simp
  have "compareRecords host r r \<le> 0"
    using compareRecords_total [OF assms(1), of r r] by simp
  with s m show ?thesis by auto
qed

lemma sortBy_nonempty: "records \<noteq> [] \<Longrightarrow> sortBy cmp records \<noteq> []"
  using set_sortBy [of cmp records] by (metis set_empty)

lemma compareStrings_le:
  "compareStrings a b \<le> 0 \<longleftrightarrow> map of_char a \<le> (map of_char b :: nat list)"
  by (induction a b rule: compareStrings.induct) auto

lemma compareStrings_less: "compareStrings a b < 0 \<longleftrightarrow> 0 < compareStrings b a"
  by (induction a b rule: compareStrings.induct) simp_all

lemma consistentCompare_compareStrings: "consistentCompare compareStrings"
  unfolding consistentCompare_def
proof (intro conjI allI impI)
  fix a b
  show "(compareStrings a b < 0) = (0 < compareStrings b a)"
    by (rule compareStrings_less)
next
  fix a b c
  assume "compareStrings a b \<le> 0 \<and> compareStrings b c \<le> 0"
  then show "compareStrings a c \<le> 0"
    unfolding compareStrings_le by (elim conjE) (rule order_trans)
qed

lemma compareStrings_neg: "compareStrings a b < 0 \<longleftrightarrow> map of_char a < (map of_char b :: nat list)"
  by (induction a b rule: compareStrings.induct) auto

lemma compareStrings_pos: "0 < compareStrings a b \<longleftrightarrow> map of_char b < (map of_char a :: nat list)"
  using compareStrings_less [of b a] compareStrings_neg [of b a] by simp

lemma compareStrings_zero: "compareStrings a b = 0 \<longleftrightarrow> map of_char a = (map of_char b :: nat list)"
proof -
  have "compareStrings a b = 0 \<longleftrightarrow> \<not> compareStrings a b < 0 \<and> \<not> 0 < compareStrings a b"
    by auto
  then show ?thesis
    unfolding compareStrings_neg compareStrings_pos by auto
qed

lemma collationCompare_le:
  "collationCompare a b \<le> 0 \<longleftrightarrow>
     (map of_char (toLowerCase a) :: nat list) < map of_char (toLowerCase b)
     \<or> ((map of_char (toLowerCase a) :: nat list) = map of_char (toLowerCase b)
         \<and> (map of_char (map swapCase a) :: nat list) \<le> map of_char (map swapCase b))"
proof (cases "compareStrings (toLowerCase a) (toLowerCase b) = 0")
  case True
  then show ?thesis
    using compareStrings_zero [of "toLowerCase a" "toLowerCase b"]
      compareStrings_le [of "map swapCase a" "map swapCase b"]
    by (simp add: collationCompare_def)
next
  case False
  then have n: "(map of_char (toLowerCase a) :: nat list) \<noteq> map of_char (toLowerCase b)"
    using compareStrings_zero [of "toLowerCase a" "toLowerCase b"] by simp
  have "collationCompare a b \<le> 0 \<longleftrightarrow> compareStrings (toLowerCase a) (toLowerCase b) < 0"
    using False by (auto simp: collationCompare_def Let_def)
  then show ?thesis
    using n compareStrings_neg [of "toLowerCase a" "toLowerCase b"] by simp
qed

lemma collationCompare_neg:
  "collationCompare a b < 0 \<longleftrightarrow>
     (map of_char (toLowerCase a) :: nat list) < map of_char (toLowerCase b)
     \<or> ((map of_char (toLowerCase a) :: nat list) = map of_char (toLowerCase b)
         \<and> (map of_char (map swapCase a) :: nat list) < map of_char (map swapCase b))"
proof (cases "compareStrings (toLowerCase a) (toLowerCase b) = 0")
  case True
  then show ?thesis
    using compareStrings_zero [of "toLowerCase a" "toLowerCase b"]
      compareStrings_neg [of "map swapCase a" "map swapCase b"]
    by (simp add: collationCompare_def)
next
  case False
  then have n: "(map of_char (toLowerCase a) :: nat list) \<noteq> map of_char (toLowerCase b)"
    using compareStrings_zero [of "toLowerCase a" "toLowerCase b"] by simp
  have "collationCompare a b < 0 \<longleftrightarrow> compareStrings (toLowerCase a) (toLowerCase b) < 0"
    using False by (simp add: collationCompare_def Let_def)
  then show ?thesis
    using n compareStrings_neg [of "toLowerCase a" "toLowerCase b"] by simp
qed

lemma collationCompare_pos:
  "0 < collationCompare a b \<longleftrightarrow>
     (map of_char (toLowerCase b) :: nat list) < map of_char (toLowerCase a)
     \<or> ((map of_char (toLowerCase a) :: nat list) = map of_char (toLowerCase b)
         \<and> (map of_char (map swapCase b) :: nat list) < map of_char (map swapCase a))"
  using collationCompare_le [of a b] by (simp only: not_le [symmetric]) auto

lemma consistentCompare_collationCompare: "consistentCompare collationCompare"
  unfolding consistentCompare_def
proof (intro conjI allI impI)
  fix a b
  show "(collationCompare a b < 0) = (0 < collationCompare b a)"
    unfolding collationCompare_neg collationCompare_pos by auto
next
  fix a b c
  assume "collationCompare a b \<le> 0 \<and> collationCompare b c \<le> 0"
  then show "collationCompare a c \<le> 0"
    unfolding collationCompare_le by (elim conjE disjE) auto
qed

text \<open>
  C6, as amended. \<open>chooseDeterministicRecord\<close> returns nothing for the empty list. For a
  non-empty list it returns one of the candidates, whose parsed effective time is the
  largest of the list and whose identifier, among the candidates of that same time, comes
  first in the ascending order of the host's \<open>localeCompare\<close>, a consistent ordering that
  is the collation of the locale and not the lexicographic order of the code units. The
  parsed time is \<open>0\<close> for a missing or empty field and for one that \<open>Number\<close> does not
  read as a finite number; the identifier is \<open>id\<close>, or \<open>set_id\<close> when there is no \<open>id\<close>
  (\<open>stableId\<close>).
\<close>

theorem chooseDeterministicRecord_latest:
  assumes "consistentCompare (js_localeCompare host)"
  shows "chooseDeterministicRecord host [] = None
    \<and> (records \<noteq> [] \<longrightarrow>
         (\<exists>r. chooseDeterministicRecord host records = Some r \<and> r \<in> set records
            \<and> (\<forall>x \<in> set records.
                 recordTime host x \<le> recordTime host r
                 \<and> (recordTime host x = recordTime host r
                      \<longrightarrow> js_localeCompare host (stableId r) (stableId x) \<le> 0))))
    \<and> effectiveTimeToNumber host None = 0
    \<and> effectiveTimeToNumber host (Some []) = 0
    \<and> (js_Number host t = None \<longrightarrow> effectiveTimeToNumber host (Some t) = 0)"
proof -
  have e: "chooseDeterministicRecord host [] = None"
    by (simp add: chooseDeterministicRecord_def)
  have c: "records \<noteq> [] \<longrightarrow>
         (\<exists>r. chooseDeterministicRecord host records = Some r \<and> r \<in> set records
            \<and> (\<forall>x \<in> set records.
                 recordTime host x \<le> recordTime host r
                 \<and> (recordTime host x = recordTime host r
                      \<longrightarrow> js_localeCompare host (stableId r) (stableId x) \<le> 0)))"
  proof
    assume ne: "records \<noteq> []"
    obtain r rs where rs: "sortBy (compareRecords host) records = r # rs"
      using sortBy_nonempty [OF ne] by (cases "sortBy (compareRecords host) records") auto
    have ch: "chooseDeterministicRecord host records = Some r"
      using ne rs by (simp add: chooseDeterministicRecord_def)
    from sortBy_head_least [OF assms rs]
    have m: "r \<in> set records" and l: "\<forall>x \<in> set records. compareRecords host r x \<le> 0"
      by auto
    from l have "\<forall>x \<in> set records.
                 recordTime host x \<le> recordTime host r
                 \<and> (recordTime host x = recordTime host r
                      \<longrightarrow> js_localeCompare host (stableId r) (stableId x) \<le> 0)"
      unfolding compareRecords_le by auto
    with ch m show "\<exists>r. chooseDeterministicRecord host records = Some r \<and> r \<in> set records
            \<and> (\<forall>x \<in> set records.
                 recordTime host x \<le> recordTime host r
                 \<and> (recordTime host x = recordTime host r
                      \<longrightarrow> js_localeCompare host (stableId r) (stableId x) \<le> 0))"
      by blast
  qed
  have n1: "effectiveTimeToNumber host None = 0"
    and n2: "effectiveTimeToNumber host (Some []) = 0"
    and n3: "js_Number host t = None \<longrightarrow> effectiveTimeToNumber host (Some t) = 0"
    by (simp_all add: effectiveTimeToNumber_def)
  show ?thesis
    using e c n1 n2 n3 by (intro conjI) assumption+
qed

theorem chooseDeterministicRecord_latest_witness:
  "consistentCompare (js_localeCompare exampleHost)
   \<and> chooseDeterministicRecord exampleHost candidates = Some (candidates ! 3)
   \<and> recordTime exampleHost (candidates ! 0) \<le> recordTime exampleHost (candidates ! 3)
   \<and> recordTime exampleHost (candidates ! 2) = recordTime exampleHost (candidates ! 3)
   \<and> js_localeCompare exampleHost (stableId (candidates ! 3)) (stableId (candidates ! 2)) \<le> 0"
proof -
  have c: "consistentCompare (js_localeCompare exampleHost)"
    by (simp add: exampleHost_def consistentCompare_compareStrings)
  have v: "chooseDeterministicRecord exampleHost candidates = Some (candidates ! 3)"
    by code_simp
  have t: "recordTime exampleHost (candidates ! 2) = recordTime exampleHost (candidates ! 3)"
    by code_simp
  have m: "candidates ! 0 \<in> set candidates" "candidates ! 2 \<in> set candidates" "candidates \<noteq> []"
    by (simp_all add: candidates_def)
  from chooseDeterministicRecord_latest [OF c, of candidates] m(3)
  obtain r where r: "chooseDeterministicRecord exampleHost candidates = Some r"
    and b: "\<forall>x \<in> set candidates.
              recordTime exampleHost x \<le> recordTime exampleHost r
              \<and> (recordTime exampleHost x = recordTime exampleHost r
                   \<longrightarrow> js_localeCompare exampleHost (stableId r) (stableId x) \<le> 0)"
    by blast
  from r v have e: "r = candidates ! 3" by simp
  from b m(1) have 0: "recordTime exampleHost (candidates ! 0) \<le> recordTime exampleHost r"
    by blast
  from b m(2) t e have 2: "js_localeCompare exampleHost (stableId r) (stableId (candidates ! 2)) \<le> 0"
    by blast
  from c v t 0 2 show ?thesis
    unfolding e by (intro conjI) assumption+
qed

text \<open>
  The claim as stated, ties resolved by the ascending lexicographic comparison of the
  identifiers, is false: of two candidates of the same effective time with the identifiers
  \<open>Z\<close> and \<open>a\<close>, the code on the host above returns the one with \<open>a\<close>, although \<open>Z\<close> is
  the smaller string lexicographically.
\<close>

theorem chooseDeterministicRecord_collation_counterexample:
  "consistentCompare (js_localeCompare collationHost)
   \<and> chooseDeterministicRecord collationHost tiedCandidates = Some (tiedCandidates ! 1)
   \<and> recordTime collationHost (tiedCandidates ! 0) = recordTime collationHost (tiedCandidates ! 1)
   \<and> stableId (tiedCandidates ! 0) = ''Z''
   \<and> stableId (tiedCandidates ! 1) = ''a''
   \<and> ''Z'' < ''a''"
proof -
  have c: "consistentCompare (js_localeCompare collationHost)"
    by (simp add: collationHost_def consistentCompare_collationCompare)
  have v: "chooseDeterministicRecord collationHost tiedCandidates = Some (tiedCandidates ! 1)"
    by code_simp
  have t: "recordTime collationHost (tiedCandidates ! 0) = recordTime collationHost (tiedCandidates ! 1)"
    by code_simp
  have i: "stableId (tiedCandidates ! 0) = ''Z''" "stableId (tiedCandidates ! 1) = ''a''"
    by (simp_all add: tiedCandidates_def stableId_def emptyRecord_def)
  have l: "''Z'' < ''a''"
    by (simp add: less_char_def)
  from c v t i l show ?thesis
    by (intro conjI) assumption+
qed

section \<open>Ambiguous candidates\<close>

text \<open>
  \<open>detectAmbiguity\<close> counts the distinct keys \<open>aiKey\<close>. When it reports an ambiguity, the
  miss path of the resolution returns the outcome \<open>ambiguous\<close> and leaves every store as it
  was. Candidates with one and the same normalized ingredient list, and a single
  candidate, are never ambiguous. Candidates with two different lists are ambiguous
  whenever no ingredient name has a vertical bar in it.
\<close>

lemma detectAmbiguity_keys:
  "fst (detectAmbiguity records) \<longleftrightarrow> card (aiKey ` set records) > 1 \<and> length records > 1"
  by (simp add: detectAmbiguity_def Let_def image_image)

lemma resolveMiss_ambiguous:
  assumes "fst (detectAmbiguity records)"
  shows "\<exists>res. resolveMiss host st drugQuery normalizedDrugQuery records = Inr (res, st)
           \<and> kind res = ambiguous \<and> snapshot_res res = None"
proof -
  have "records \<noteq> []"
    using assms by (auto simp: detectAmbiguity_def)
  with assms show ?thesis
    by (simp add: resolveMiss_def Let_def)
qed

lemma one_group_not_ambiguous:
  assumes "card (normalizedActiveIngredientList ` set records) \<le> 1 \<or> length records \<le> 1"
  shows "\<not> fst (detectAmbiguity records)"
proof -
  have "aiKey ` set records = join '' | '' ` (normalizedActiveIngredientList ` set records)"
    by (auto simp: aiKey_def image_iff)
  then have "card (aiKey ` set records) \<le> card (normalizedActiveIngredientList ` set records)"
    by (simp add: card_image_le)
  with assms show ?thesis
    unfolding detectAmbiguity_keys by auto
qed

lemma takeWhile_bar:
  "CHR ''|'' \<notin> set x \<Longrightarrow> takeWhile (\<lambda>c. c \<noteq> CHR ''|'') (x @ '' | '' @ r) = x @ '' ''"
  by (induction x) auto

lemma join_Cons2: "join sep (x # y # ys) = x @ sep @ join sep (y # ys)"
  by simp

lemma bar_in_join2: "CHR ''|'' \<in> set (join '' | '' (x # y # ys))"
  by simp

lemma list012_cases:
  fixes ys :: "'a list"
  obtains (Nil) "ys = []" | (One) y where "ys = [y]" | (More) y y' ys' where "ys = y # y' # ys'"
proof (cases ys)
  case Nil
  then show ?thesis by (rule that(1))
next
  case (Cons y t)
  then show ?thesis by (cases t) (auto intro: that)
qed

lemma join_bar_inj:
  "barFree xs \<Longrightarrow> barFree ys \<Longrightarrow> join '' | '' xs = join '' | '' ys \<Longrightarrow> xs = ys"
proof (induction xs arbitrary: ys rule: induct_list012)
  case 1
  then show ?case
    by (cases ys rule: list012_cases) (auto simp: barFree_def)
next
  case (2 x)
  show ?case
  proof (cases ys rule: list012_cases)
    case Nil
    with 2 show ?thesis by (auto simp: barFree_def)
  next
    case (One y)
    with "2.prems" show ?thesis by simp
  next
    case (More y y' ys')
    then have "CHR ''|'' \<in> set (join '' | '' ys)" by simp
    with "2.prems" show ?thesis by (auto simp: barFree_def)
  qed
next
  case (3 x x' xs')
  show ?case
  proof (cases ys rule: list012_cases)
    case Nil
    with "3.prems" show ?thesis by (auto simp: barFree_def)
  next
    case (One y)
    have "CHR ''|'' \<in> set (join '' | '' (x # x' # xs'))" by simp
    with "3.prems" One show ?thesis by (auto simp: barFree_def)
  next
    case (More y y' ys')
    from "3.prems" More
    have eq: "x @ '' | '' @ join '' | '' (x' # xs') = y @ '' | '' @ join '' | '' (y' # ys')"
      by simp
    from "3.prems" More have nb: "CHR ''|'' \<notin> set x" "CHR ''|'' \<notin> set y"
      by (auto simp: barFree_def)
    have "x @ '' '' = y @ '' ''"
      using arg_cong [OF eq, of "takeWhile (\<lambda>c. c \<noteq> CHR ''|'')"]
      by (simp only: takeWhile_bar [OF nb(1)] takeWhile_bar [OF nb(2)])
    then have xy: "x = y" by simp
    with eq have j: "join '' | '' (x' # xs') = join '' | '' (y' # ys')" by simp
    from "3.prems" More have b: "barFree (x' # xs')" "barFree (y' # ys')"
      by (auto simp: barFree_def)
    from "3.IH"(2) [OF b j] have "x' # xs' = y' # ys'" .
    with xy More show ?thesis by simp
  qed
qed


lemma normalized_nonempty: "x \<in> set (normalizedActiveIngredientList r) \<Longrightarrow> x \<noteq> []"
  by (auto simp: normalizedActiveIngredientList_def)

lemma bar_free_groups_ambiguous:
  assumes bars: "\<forall>r \<in> set records. \<forall>x \<in> set (normalizedActiveIngredientList r). CHR ''|'' \<notin> set x"
    and many: "length records > 1"
    and groups: "card (normalizedActiveIngredientList ` set records) > 1"
  shows "fst (detectAmbiguity records)"
    and "\<exists>res. resolveMiss host st drugQuery normalizedDrugQuery records = Inr (res, st)
           \<and> kind res = ambiguous \<and> snapshot_res res = None"
proof -
  have free: "barFree (normalizedActiveIngredientList r)" if "r \<in> set records" for r
    using bars that normalized_nonempty [of _ r] by (auto simp: barFree_def list_all_iff)
  have "inj_on (join '' | '') (normalizedActiveIngredientList ` set records)"
    by (rule inj_onI) (auto intro: join_bar_inj free)
  then have "card (join '' | '' ` (normalizedActiveIngredientList ` set records))
      = card (normalizedActiveIngredientList ` set records)"
    by (rule card_image)
  moreover have "aiKey ` set records = join '' | '' ` (normalizedActiveIngredientList ` set records)"
    by (auto simp: aiKey_def image_iff)
  ultimately show a: "fst (detectAmbiguity records)"
    using many groups by (simp add: detectAmbiguity_keys)
  then show "\<exists>res. resolveMiss host st drugQuery normalizedDrugQuery records = Inr (res, st)
           \<and> kind res = ambiguous \<and> snapshot_res res = None"
    by (rule resolveMiss_ambiguous)
qed

text \<open>
  C5. The first half of this property does not hold of the code. The two candidates
  below have different normalized ingredient lists, one the single name \<open>a | b\<close> and the
  other the two names \<open>a\<close> and \<open>b\<close>, but the same key, the lists being joined with
  \<open>'' | ''\<close>. \<open>detectAmbiguity\<close> does not report them, and the resolution pins the later
  record and writes it to the stores instead of returning \<open>ambiguous\<close>.
\<close>

theorem detectAmbiguity_key_collision:
  "length collidingRecords = 2
   \<and> normalizedActiveIngredientList (collidingRecords ! 0) = [''a | b'']
   \<and> normalizedActiveIngredientList (collidingRecords ! 1) = [''a'', ''b'']
   \<and> fst (detectAmbiguity collidingRecords) = False
   \<and> (case resolveDrugToPinnedLabel exampleHost emptyStores ''Ab'' (Inr collidingRecords) of
         Inl e \<Rightarrow> False
       | Inr (res, st) \<Rightarrow>
           kind res = ok \<and> map_option setId (snapshot_res res) = Some ''s2''
           \<and> map_option docId_idx (rxguard_drug_index st ''ab'') = Some ''s2_20240102'')"
  by code_simp

section \<open>Quotes of a blocking response\<close>

text \<open>
  \<open>evaluatePolicy\<close> itself never returns \<open>BLOCK\<close> or \<open>CAUTION\<close> with an empty list of quotes.
  Its fallback quote, on a snapshot that \<open>buildLabelSnapshot\<close> built, is the first 280
  characters of the evidence text followed by an ellipsis, the text being longer than that.
\<close>

lemma evaluatePolicy_quotes_nonempty:
  "decision (evaluatePolicy snapshot profile' otherMeds') = BLOCK
   \<or> decision (evaluatePolicy snapshot profile' otherMeds') = CAUTION
   \<Longrightarrow> quotes (evaluatePolicy snapshot profile' otherMeds') \<noteq> []"
  by (auto simp: evaluatePolicy_def ensureQuotes_def split: prod.splits)

lemma fallbackQuote_ellipsis:
  "buildLabelSnapshot host record = Inr s \<Longrightarrow>
     quote (fallbackQuote s) = take 280 (evidenceText s) @ ellipsis"
proof -
  assume b: "buildLabelSnapshot host record = Inr s"
  then have "evidenceText s = buildCanonicalEvidenceText (extractEvidenceSections record)"
    by (rule buildLabelSnapshot_text)
  with length_canonical [of "extractEvidenceSections record"]
  have "length (evidenceText s) > 280" by simp
  then show ?thesis by (simp add: fallbackQuote_def slice_def)
qed

text \<open>
  C1. This property does not hold of the code. The label record below has an interaction
  section that starts with 220 empty entries and names folic acid with two spaces. A
  request that lists \<open>Folic acid\<close> among the other medications is answered with the
  decision \<open>BLOCK\<close>: no rule yields a quote, the window around the start of the section is
  blank, and \<open>evaluatePolicy\<close> adds the fallback quote. \<open>buildProofCard\<close> then drops it,
  its ellipsis not being in the evidence text, and the proof card has no quote.
\<close>

theorem rxguardAnswer_block_without_quotes:
  "(case rxguardAnswer host emptyStores folicAcidRequest (Inr [paddedRecord]) of
      Inl e \<Rightarrow> False
    | Inr (resp, st) \<Rightarrow>
        decision_resp resp = BLOCK \<and> risk_resp resp = HIGH
        \<and> debug_rulesTriggered resp = [''INTERACTION_OTHER_MED_MENTIONED'']
        \<and> map_option quotes_card (proofCard resp) = Some [])"
  by code_simp

end
